theory Spec2Isabelle
  imports Main "HOL-Library.AList"
begin

section \<open>Python values, exceptions and built-ins used by the provisioning library\<close>

text \<open>
  The embedding follows \<^verbatim>\<open>libs/prov/prov_k8s_cortx_deploy.py\<close> (class
  \<^verbatim>\<open>ProvDeployK8sCortxLib\<close>).  A Python exception is a value of \<open>py_exn\<close>; a call
  that may raise returns \<open>py_exn + 'a\<close> with \<open>Inl\<close> for the exception.
\<close>

datatype py_exn =
    IndexError
  | KeyError
  | TypeError
  | AttributeError
  | ZeroDivisionError
  | ValueError
  | ExecutionFailure string
  | AssertionError string
  | AssertionError_of py_exn

text \<open>
  A document as \<^verbatim>\<open>yaml.safe_load\<close> returns it.  A mapping is an association list in
  insertion order, as a Python \<^verbatim>\<open>dict\<close> is.  The library mutates the loaded document
  through references; the model rebuilds the path from the root instead, which is the
  same when no two places of the document share one object.
\<close>

datatype yaml =
    YNull
  | YBool bool
  | YInt int
  | YStr string
  | YSeq "yaml list"
  | YMap "(string \<times> yaml) list"

text \<open>\<^verbatim>\<open>obj[key]\<close> with a string key.\<close>

definition py_getitem :: "yaml \<Rightarrow> string \<Rightarrow> py_exn + yaml" where
  "py_getitem obj k =
     (case obj of
        YMap m \<Rightarrow> (case map_of m k of None \<Rightarrow> Inl KeyError | Some v \<Rightarrow> Inr v)
      | _ \<Rightarrow> Inl TypeError)"

text \<open>\<^verbatim>\<open>obj[key] = v\<close> with a string key: an existing key keeps its place, a new
  one goes last.\<close>

definition py_setitem :: "yaml \<Rightarrow> string \<Rightarrow> yaml \<Rightarrow> py_exn + yaml" where
  "py_setitem obj k v =
     (case obj of
        YMap m \<Rightarrow> Inr (YMap (AList.update k v m))
      | _ \<Rightarrow> Inl TypeError)"

text \<open>\<^verbatim>\<open>d.update(e)\<close> on association lists, entry by entry in the order of \<open>e\<close>.\<close>

definition dict_update :: "('k \<times> 'v) list \<Rightarrow> ('k \<times> 'v) list \<Rightarrow> ('k \<times> 'v) list" where
  "dict_update d e = foldl (\<lambda>acc (k, v). AList.update k v acc) d e"

text \<open>The entries of a value on which a \<^verbatim>\<open>dict\<close> method (\<^verbatim>\<open>keys\<close>,
  \<^verbatim>\<open>update\<close>, \<^verbatim>\<open>pop\<close>) is called.\<close>

definition as_dict :: "yaml \<Rightarrow> py_exn + (string \<times> yaml) list" where
  "as_dict obj = (case obj of YMap m \<Rightarrow> Inr m | _ \<Rightarrow> Inl AttributeError)"

text \<open>Slices \<^verbatim>\<open>xs[lo:hi]\<close> and \<^verbatim>\<open>xs[lo:]\<close>: a negative bound counts from the end and
  every bound is clamped to the list.\<close>

definition slice_bound :: "int \<Rightarrow> int \<Rightarrow> nat" where
  "slice_bound n i = nat (if i < 0 then max 0 (n + i) else min n i)"

definition py_slice :: "'a list \<Rightarrow> int \<Rightarrow> int \<Rightarrow> 'a list" where
  "py_slice xs lo hi =
     (let a = slice_bound (int (length xs)) lo;
          b = slice_bound (int (length xs)) hi
      in take (b - a) (drop a xs))"

definition py_slice_from :: "'a list \<Rightarrow> int \<Rightarrow> 'a list" where
  "py_slice_from xs lo = drop (slice_bound (int (length xs)) lo) xs"

text \<open>\<^verbatim>\<open>range(0, stop, step)\<close> for a step other than 0 (a step of 0 raises
  \<^verbatim>\<open>ValueError\<close>, which the caller models).\<close>

definition py_range0 :: "int \<Rightarrow> int \<Rightarrow> int list" where
  "py_range0 stop step =
     (if 0 < step then map (\<lambda>k. int k * step) [0 ..< nat ((stop + step - 1) div step)]
      else if step < 0 then map (\<lambda>k. int k * step) [0 ..< nat ((stop + step + 1) div step)]
      else [])"

text \<open>\<^verbatim>\<open>int(a / b)\<close> on integers with \<open>b \<noteq> 0\<close>: the quotient truncated towards
  zero (the float quotient is exact enough below \<open>2 ^ 53\<close>).\<close>

definition trunc_div :: "int \<Rightarrow> int \<Rightarrow> int" where
  "trunc_div a b = sgn a * sgn b * (\<bar>a\<bar> div \<bar>b\<bar>)"

text \<open>\<^verbatim>\<open>s.split(c)\<close> for a one-character separator.\<close>

fun split_on :: "char \<Rightarrow> string \<Rightarrow> string list" where
  "split_on c [] = [[]]"
| "split_on c (x # xs) =
     (if x = c then [] # split_on c xs
      else (case split_on c xs of [] \<Rightarrow> [[x]] | y # ys \<Rightarrow> (x # y) # ys))"

text \<open>\<^verbatim>\<open>str(n)\<close> and \<^verbatim>\<open>"{}".format(n)\<close> on an integer: decimal digits, with a minus
  sign for a negative number.\<close>

definition digit_char :: "nat \<Rightarrow> char" where
  "digit_char n = ''0123456789'' ! n"

function str_nat :: "nat \<Rightarrow> string" where
  "str_nat n = (if n < 10 then [digit_char n] else str_nat (n div 10) @ [digit_char (n mod 10)])"
  by pat_completeness auto
termination
  by (relation "measure id") auto

definition str_int :: "int \<Rightarrow> string" where
  "str_int i = (if i < 0 then CHR ''-'' # str_nat (nat (- i)) else str_nat (nat i))"

section \<open>Nodes and configuration\<close>

text \<open>
  A \<^verbatim>\<open>LogicalNode\<close>: its host name and what each command the library runs on it
  gives.  \<^verbatim>\<open>execute_cmd\<close> is not part of the library; a command that fails raises, so
  every output is an exception or a value.  \<open>list_devices\<close> is the output of
  \<^verbatim>\<open>CMD_LIST_DEVICES\<close> read as lines.  \<open>num_cpu\<close> and \<open>lsblk_count\<close> are the results of
  \<^verbatim>\<open>int(...)\<close> on the first line of \<^verbatim>\<open>CMD_NUM_CPU\<close> and \<^verbatim>\<open>CMD_LSBLK\<close> (an exception
  when the command fails, prints nothing or prints no integer); \<open>os_rel\<close> and
  \<open>krnl_ver\<close> are the stripped first lines of \<^verbatim>\<open>CMD_OS_REL\<close> and \<^verbatim>\<open>CMD_KRNL_VER\<close>.
  \<open>chk_taint\<close> is whether the output of \<^verbatim>\<open>K8S_CHK_TAINT\<close> contains \<^verbatim>\<open>NoSchedule\<close>,
  \<open>taint_node\<close> the outcome of \<^verbatim>\<open>K8S_TAINT_NODE\<close>, \<open>get_pod_name\<close> what the method of that
  name returns, and \<open>execute_cmd\<close> the outcome of any other command line, given with its
  \<^verbatim>\<open>read_lines\<close> flag.
\<close>

datatype cmd_out = Out_bytes string | Out_lines "string list"

record node =
  hostname :: string
  ping :: "py_exn + unit"
  num_cpu :: "py_exn + int"
  lsblk_count :: "py_exn + int"
  os_rel :: "py_exn + string"
  krnl_ver :: "py_exn + string"
  list_devices :: "py_exn + string list"
  chk_taint :: "py_exn + bool"
  taint_node :: "py_exn + unit"
  get_pod_name :: "py_exn + bool \<times> string"
  execute_cmd :: "string \<Rightarrow> bool \<Rightarrow> py_exn + cmd_out"

text \<open>The entries of \<^verbatim>\<open>PROV_CFG["k8s_cortx_deploy"]\<close> that the modelled methods read.
  The configuration file is not part of the library, so it is a parameter.  The entries
  \<^verbatim>\<open>prereq.os_release\<close> and \<^verbatim>\<open>prereq.kernel\<close> are taken to be lists of strings, so that
  \<^verbatim>\<open>resp not in ...\<close> is list membership, and \<^verbatim>\<open>third_party_images\<close> and \<^verbatim>\<open>password\<close>
  are mappings from strings to strings.\<close>

record deploy_cfg =
  cpu_cores :: int
  min_disks :: int
  os_release :: "string list"
  kernel :: "string list"
  third_party_images :: "(string \<times> string) list"
  cortx_images_key :: "string list"
  password :: "(string \<times> string) list"
  local_path_prov :: string
  s3_max_start_timeout :: yaml
  git_remote_dir :: string
  destroy_cluster :: string

section \<open>Disk partitioning in \<^verbatim>\<open>update_sol_yaml\<close>\<close>

text \<open>The keyword arguments of \<^verbatim>\<open>update_sol_yaml\<close>, after the defaults are filled in.\<close>

record sol_kwargs =
  cvg_count :: int
  data_disk_per_cvg :: int
  cvg_type :: string
  sns_data :: int
  sns_parity :: int
  sns_spare :: int
  dix_data :: int
  dix_parity :: int
  dix_spare :: int
  size_metadata :: string
  size_data_disk :: string
  glusterfs_size :: string
  skip_disk_count_check :: bool
  third_party_images_dict :: "(string \<times> string) list"

text \<open>The local variables that live across the iterations of the loop over the
  worker nodes.\<close>

record part_state =
  st_data_disk_per_cvg :: int
  st_data_devices :: "string list list"
  st_metadata_devices :: "string list"
  st_sys_disk_pernode :: "(string \<times> string) list"

text \<open>How one iteration, or the whole loop, ends: an exception, the inner
  \<^verbatim>\<open>while\<close> never ending, \<^verbatim>\<open>return False, msg\<close>, or the next state.\<close>

datatype 'a step = Raised py_exn | Diverged | Failed string | Done 'a

text \<open>\<^verbatim>\<open>execute_cmd(cmd=CMD_LIST_DEVICES, read_lines=True)[0].split(",")\<close>, then the
  newlines of the last field removed.\<close>

definition device_list_of :: "node \<Rightarrow> py_exn + string list" where
  "device_list_of node_obj =
     (case list_devices node_obj of
        Inl e \<Rightarrow> Inl e
      | Inr [] \<Rightarrow> Inl IndexError
      | Inr (line # _) \<Rightarrow>
          (let fields = split_on CHR '','' line
           in Inr (butlast fields @ [filter (\<lambda>c. c \<noteq> CHR 0x0A) (last fields)])))"

text \<open>
  The \<^verbatim>\<open>while count:\<close> loop of the branch for \<open>d * g < n - g - 1\<close>.  \<open>count\<close> is
  decremented until it is 0, so it never ends for a negative \<open>count\<close> unless the
  \<^verbatim>\<open>break\<close> is reached: the loop is a partial function.
\<close>

partial_function (option) slice_loop ::
  "int \<Rightarrow> int \<Rightarrow> int \<Rightarrow> int \<Rightarrow> string list \<Rightarrow> string list list \<Rightarrow> string list list option"
where
  "slice_loop count count_end d new_device_lst_len data_devices_f data_devices =
     (if count \<noteq> 0 then
        (let new_end = count_end + d in
         if new_end > new_device_lst_len then Some data_devices
         else slice_loop (count - 1) new_end d new_device_lst_len data_devices_f
                (data_devices @ [py_slice data_devices_f count_end new_end]))
      else Some data_devices)"

declare slice_loop.simps [code]

definition msg_nks :: string where
  "msg_nks = ''The sum of data disks per cvg is less than N+K+S count''"

definition msg_more :: string where
  "msg_more = ''The requested data disk is more than the data disk available on the system''"

text \<open>The body of \<^verbatim>\<open>for node_count, node_obj in enumerate(worker_obj, start=1)\<close>;
  \<open>node_list\<close> is \<^verbatim>\<open>len(worker_obj)\<close>.\<close>

definition partition_node :: "sol_kwargs \<Rightarrow> int \<Rightarrow> part_state \<Rightarrow> node \<Rightarrow> part_state step" where
  "partition_node kw node_list st node_obj =
     (case device_list_of node_obj of
        Inl e \<Rightarrow> Raised e
      | Inr device_list \<Rightarrow>
          (let g = cvg_count kw;
               metadata = py_slice device_list 1 (g + 1);
               new_device_lst_len = int (length device_list) - g - 1;
               data_devices_f = py_slice_from device_list (g + 1)
           in
           if st_data_disk_per_cvg st = 0 \<and> g = 0 then Raised ZeroDivisionError
           else
             (let d = (if st_data_disk_per_cvg st = 0
                       then trunc_div (int (length data_devices_f)) g
                       else st_data_disk_per_cvg st)
              in
              if \<not> skip_disk_count_check kw \<and>
                 sns_spare kw + sns_data kw + sns_parity kw > d * g * node_list
              then Failed msg_nks
              else if new_device_lst_len < d * g then Failed msg_more
              else if d * g < new_device_lst_len then
                (case slice_loop g d d new_device_lst_len data_devices_f
                        (st_data_devices st @ [py_slice data_devices_f 0 d]) of
                   None \<Rightarrow> Diverged
                 | Some dd \<Rightarrow>
                     Done \<lparr>st_data_disk_per_cvg = d, st_data_devices = dd,
                           st_metadata_devices = metadata,
                           st_sys_disk_pernode =
                             AList.update (hostname node_obj) (hd device_list)
                               (st_sys_disk_pernode st)\<rparr>)
              else if d = 0 then Raised ValueError
              else
                Done \<lparr>st_data_disk_per_cvg = d,
                      st_data_devices =
                        map (\<lambda>i. py_slice data_devices_f i (i + d))
                          (py_range0 (int (length data_devices_f)) d),
                      st_metadata_devices = metadata,
                      st_sys_disk_pernode =
                        AList.update (hostname node_obj) (hd device_list)
                          (st_sys_disk_pernode st)\<rparr>)))"

fun partition_loop :: "sol_kwargs \<Rightarrow> int \<Rightarrow> part_state \<Rightarrow> node list \<Rightarrow> part_state step" where
  "partition_loop kw node_list st [] = Done st"
| "partition_loop kw node_list st (node_obj # rest) =
     (case partition_node kw node_list st node_obj of
        Done st' \<Rightarrow> partition_loop kw node_list st' rest
      | Raised e \<Rightarrow> Raised e
      | Diverged \<Rightarrow> Diverged
      | Failed m \<Rightarrow> Failed m)"

text \<open>The locals before the loop: \<^verbatim>\<open>data_devices = list()\<close>,
  \<^verbatim>\<open>sys_disk_pernode = {}\<close>, \<^verbatim>\<open>metadata_devices = []\<close>.\<close>

definition init_state :: "sol_kwargs \<Rightarrow> part_state" where
  "init_state kw =
     \<lparr>st_data_disk_per_cvg = data_disk_per_cvg kw, st_data_devices = [],
      st_metadata_devices = [], st_sys_disk_pernode = []\<rparr>"


section \<open>The edit passes over the solution manifest\<close>

text \<open>
  Every pass loads the file, changes the document and writes it back; the file is written
  only after the whole edit, so a pass that raises leaves the file as it was.  A pass is a
  function from the document in the file to an exception or the document written back
  (\<^verbatim>\<open>yaml.dump\<close> followed by \<^verbatim>\<open>yaml.safe_load\<close> is taken to give the document back).
  All passes return \<^verbatim>\<open>True, filepath\<close> when they return.
\<close>

definition exn_bind :: "py_exn + 'a \<Rightarrow> ('a \<Rightarrow> py_exn + 'b) \<Rightarrow> py_exn + 'b" where
  "exn_bind m f = (case m of Inl e \<Rightarrow> Inl e | Inr x \<Rightarrow> f x)"

text \<open>\<^verbatim>\<open>d.pop(k)\<close> without a default.\<close>

definition dict_pop :: "('k \<times> 'v) list \<Rightarrow> 'k \<Rightarrow> py_exn + ('k \<times> 'v) list" where
  "dict_pop d k = (if k \<in> fst ` set d then Inr (AList.delete k d) else Inl KeyError)"

text \<open>\<^verbatim>\<open>update_password_sol_file\<close>; \<open>decrypt\<close> is \<^verbatim>\<open>pswdmanager.decrypt\<close>.\<close>

definition update_password_sol_file ::
  "deploy_cfg \<Rightarrow> (string \<Rightarrow> string) \<Rightarrow> yaml \<Rightarrow> py_exn + yaml" where
  "update_password_sol_file cfg decrypt conf =
     exn_bind (py_getitem conf ''solution'') (\<lambda>parent_key.
     exn_bind (py_getitem parent_key ''secrets'') (\<lambda>secrets.
     exn_bind (py_getitem secrets ''content'') (\<lambda>content.
     exn_bind (py_getitem parent_key ''common'') (\<lambda>common.
     exn_bind (py_setitem common ''storage_provisioner_path'' (YStr (local_path_prov cfg)))
       (\<lambda>common1.
     exn_bind (py_getitem common1 ''s3'') (\<lambda>s3.
     exn_bind (py_setitem s3 ''max_start_timeout'' (s3_max_start_timeout cfg)) (\<lambda>s3'.
     exn_bind (py_setitem common1 ''s3'' s3') (\<lambda>common2.
     exn_bind (as_dict content) (\<lambda>content_d.
     exn_bind (py_setitem secrets ''content''
                 (YMap (dict_update content_d
                          (map (\<lambda>(k, v). (k, YStr (decrypt v))) (password cfg)))))
       (\<lambda>secrets'.
     exn_bind (py_setitem parent_key ''secrets'' secrets') (\<lambda>parent1.
     exn_bind (py_setitem parent1 ''common'' common2) (\<lambda>parent2.
     py_setitem conf ''solution'' parent2))))))))))))"

text \<open>The loop of \<^verbatim>\<open>update_image_section_sol_file\<close> over the injected third-party
  images: a key of the configured third-party images is written to the section and
  popped from the copy of the defaults; any other key is skipped.\<close>

fun image_loop ::
  "deploy_cfg \<Rightarrow> (string \<times> string) list \<Rightarrow> (string \<times> yaml) list \<Rightarrow> (string \<times> string) list
     \<Rightarrow> py_exn + ((string \<times> yaml) list \<times> (string \<times> string) list)" where
  "image_loop cfg [] img img_default_dict = Inr (img, img_default_dict)"
| "image_loop cfg ((key, val) # rest) img img_default_dict =
     (if key \<in> set (map fst (third_party_images cfg)) then
        exn_bind (dict_pop img_default_dict key) (\<lambda>dflt.
          image_loop cfg rest (AList.update key (YStr val) img) dflt)
      else image_loop cfg rest img img_default_dict)"

definition update_image_section_sol_file ::
  "deploy_cfg \<Rightarrow> yaml \<Rightarrow> string \<Rightarrow> (string \<times> string) list \<Rightarrow> py_exn + yaml" where
  "update_image_section_sol_file cfg conf cortx_image third_party =
     (let cortx_im = dict_update [] (map (\<lambda>k. (k, YStr cortx_image)) (cortx_images_key cfg));
          img_default_dict = dict_update [] (third_party_images cfg)
      in
      exn_bind (py_getitem conf ''solution'') (\<lambda>parent_key.
      exn_bind (py_getitem parent_key ''images'') (\<lambda>img.
      exn_bind (as_dict img) (\<lambda>img_d.
      exn_bind (image_loop cfg third_party (dict_update img_d cortx_im) img_default_dict)
        (\<lambda>(img1, dflt).
      exn_bind (py_setitem parent_key ''images''
                  (YMap (dict_update img1 (map (\<lambda>(k, v). (k, YStr v)) dflt))))
        (\<lambda>parent1.
      py_setitem conf ''solution'' parent1))))))"

text \<open>\<^verbatim>\<open>xs[i]\<close> for \<open>i\<close> from a \<^verbatim>\<open>range(0, ...)\<close>, so never negative.\<close>

definition py_nth :: "'a list \<Rightarrow> nat \<Rightarrow> py_exn + 'a" where
  "py_nth xs i = (if i < length xs then Inr (xs ! i) else Inl IndexError)"

text \<open>The inner loop of \<^verbatim>\<open>update_cvg_sol_file\<close>: the \<^verbatim>\<open>data\<close> mapping
  \<^verbatim>\<open>d1, d2, ...\<close> of one volume group.\<close>

fun data_schema_loop ::
  "string list list \<Rightarrow> nat \<Rightarrow> string \<Rightarrow> nat list \<Rightarrow> (string \<times> yaml) list
     \<Rightarrow> py_exn + (string \<times> yaml) list" where
  "data_schema_loop data_devices cvg size_data [] data_schema = Inr data_schema"
| "data_schema_loop data_devices cvg size_data (disk # rest) data_schema =
     exn_bind (py_nth data_devices cvg) (\<lambda>slice.
     exn_bind (py_nth slice disk) (\<lambda>dev.
       data_schema_loop data_devices cvg size_data rest
         (AList.update (''d'' @ str_int (int disk + 1))
            (YMap [(''device'', YStr dev), (''size'', YStr size_data)]) data_schema)))"

text \<open>The outer loop \<^verbatim>\<open>for cvg in range(0, cvg_count)\<close>.\<close>

fun cvg_loop ::
  "string list \<Rightarrow> string list list \<Rightarrow> string \<Rightarrow> int \<Rightarrow> string \<Rightarrow> string \<Rightarrow> nat list
     \<Rightarrow> (string \<times> yaml) list \<Rightarrow> py_exn + (string \<times> yaml) list" where
  "cvg_loop metadata_devices data_devices c_type d size_meta size_data [] storage = Inr storage"
| "cvg_loop metadata_devices data_devices c_type d size_meta size_data (cvg # rest) storage =
     exn_bind (py_nth metadata_devices cvg) (\<lambda>meta.
     exn_bind (data_schema_loop data_devices cvg size_data [0 ..< nat d] []) (\<lambda>data_schema.
       cvg_loop metadata_devices data_devices c_type d size_meta size_data rest
         (AList.update (''cvg'' @ str_int (int cvg + 1))
            (YMap [(''name'', YStr (''cvg-0'' @ str_int (int cvg + 1))),
                   (''type'', YStr c_type),
                   (''devices'',
                     YMap [(''metadata'', YMap [(''device'', YStr meta), (''size'', YStr size_meta)]),
                           (''data'', YMap data_schema)])])
            storage)))"

text \<open>\<^verbatim>\<open>"{}+{}+{}".format(n, k, s)\<close>.\<close>

definition nks_format :: "int \<Rightarrow> int \<Rightarrow> int \<Rightarrow> string" where
  "nks_format n k s = str_int n @ ''+'' @ str_int k @ ''+'' @ str_int s"

definition update_cvg_sol_file ::
  "yaml \<Rightarrow> string list \<Rightarrow> string list list \<Rightarrow> int \<Rightarrow> string \<Rightarrow> int \<Rightarrow>
     int \<Rightarrow> int \<Rightarrow> int \<Rightarrow> int \<Rightarrow> int \<Rightarrow> int \<Rightarrow> string \<Rightarrow> string \<Rightarrow> string \<Rightarrow> py_exn + yaml" where
  "update_cvg_sol_file conf metadata_devices data_devices g c_type d
       sns_n sns_k sns_s dix_n dix_k dix_s size_meta size_data gluster =
     (let nks = nks_format sns_n sns_k sns_s;
          dix = nks_format dix_n dix_k dix_s
      in
      exn_bind (py_getitem conf ''solution'') (\<lambda>parent_key.
      exn_bind (py_getitem parent_key ''common'') (\<lambda>common.
      exn_bind (py_getitem parent_key ''storage'') (\<lambda>storage.
      exn_bind (py_getitem common ''storage_sets'') (\<lambda>cmn_storage_sets.
      exn_bind (py_getitem common ''glusterfs'') (\<lambda>glusterfs.
      exn_bind (py_setitem glusterfs ''size'' (YStr gluster)) (\<lambda>glusterfs'.
      exn_bind (py_setitem common ''glusterfs'' glusterfs') (\<lambda>common1.
      exn_bind (as_dict storage) (\<lambda>total_cvg.
      exn_bind (py_getitem cmn_storage_sets ''durability'') (\<lambda>durability.
      exn_bind (py_setitem durability ''sns'' (YStr nks)) (\<lambda>durability1.
      exn_bind (py_setitem durability1 ''dix'' (YStr dix)) (\<lambda>durability2.
      exn_bind (py_setitem cmn_storage_sets ''durability'' durability2) (\<lambda>sets'.
      exn_bind (py_setitem common1 ''storage_sets'' sets') (\<lambda>common2.
      exn_bind (cvg_loop metadata_devices data_devices c_type d size_meta size_data
                  [0 ..< nat g] []) (\<lambda>storage'.
      exn_bind (py_setitem parent_key ''common'' common2) (\<lambda>parent1.
      exn_bind (py_setitem parent1 ''storage'' (YMap storage')) (\<lambda>parent2.
      py_setitem conf ''solution'' parent2)))))))))))))))))"

text \<open>\<^verbatim>\<open>update_nodes_sol_file\<close>: the \<^verbatim>\<open>nodes\<close> section is emptied and filled with
  \<^verbatim>\<open>node1, node2, ...\<close>, one per worker.\<close>

definition update_nodes_sol_file :: "yaml \<Rightarrow> node list \<Rightarrow> py_exn + yaml" where
  "update_nodes_sol_file conf worker_obj =
     exn_bind (py_getitem conf ''solution'') (\<lambda>parent_key.
     exn_bind (py_getitem parent_key ''nodes'') (\<lambda>nodes.
     exn_bind (as_dict nodes) (\<lambda>total_nodes.
     exn_bind (py_setitem parent_key ''nodes''
                 (YMap (dict_update []
                    (map (\<lambda>(item, host).
                            (''node'' @ str_int (int item + 1), YMap [(''name'', YStr (hostname host))]))
                       (zip [0 ..< length worker_obj] worker_obj)))))
       (\<lambda>parent1.
     py_setitem conf ''solution'' parent1))))"

text \<open>
  \<^verbatim>\<open>update_sol_yaml\<close>.  The result pairs the document left in the file with how the
  call ends: \<open>Done\<close> is \<^verbatim>\<open>return True, filepath, sys_disk_pernode\<close> and \<open>Failed\<close> is
  \<^verbatim>\<open>return False, msg\<close>.  The four passes never return \<^verbatim>\<open>False\<close>, so the
  \<^verbatim>\<open>if not resp[0]\<close> branches after them are dead code.
\<close>

definition update_sol_yaml ::
  "deploy_cfg \<Rightarrow> (string \<Rightarrow> string) \<Rightarrow> node list \<Rightarrow> yaml \<Rightarrow> string \<Rightarrow> sol_kwargs
     \<Rightarrow> yaml \<times> (string \<times> string) list step" where
  "update_sol_yaml cfg decrypt worker_obj conf cortx_image kw =
     (case partition_loop kw (int (length worker_obj)) (init_state kw) worker_obj of
        Raised e \<Rightarrow> (conf, Raised e)
      | Diverged \<Rightarrow> (conf, Diverged)
      | Failed m \<Rightarrow> (conf, Failed m)
      | Done st \<Rightarrow>
          (case update_password_sol_file cfg decrypt conf of
             Inl e \<Rightarrow> (conf, Raised e)
           | Inr conf1 \<Rightarrow>
          (case update_image_section_sol_file cfg conf1 cortx_image (third_party_images_dict kw) of
             Inl e \<Rightarrow> (conf1, Raised e)
           | Inr conf2 \<Rightarrow>
          (case update_cvg_sol_file conf2 (st_metadata_devices st) (st_data_devices st)
                  (cvg_count kw) (cvg_type kw) (st_data_disk_per_cvg st)
                  (sns_data kw) (sns_parity kw) (sns_spare kw)
                  (dix_data kw) (dix_parity kw) (dix_spare kw)
                  (size_metadata kw) (size_data_disk kw) (glusterfs_size kw) of
             Inl e \<Rightarrow> (conf2, Raised e)
           | Inr conf3 \<Rightarrow>
          (case update_nodes_sol_file conf3 worker_obj of
             Inl e \<Rightarrow> (conf3, Raised e)
           | Inr conf4 \<Rightarrow> (conf4, Done (st_sys_disk_pernode st)))))))"


section \<open>Prerequisite checks\<close>

text \<open>\<^verbatim>\<open>prereq_vm\<close>: the commands run in this order, and a check that fails returns
  before the next command runs.\<close>

definition prereq_vm :: "deploy_cfg \<Rightarrow> node \<Rightarrow> py_exn + bool \<times> string" where
  "prereq_vm cfg node_obj =
     exn_bind (ping node_obj) (\<lambda>_.
     exn_bind (num_cpu node_obj) (\<lambda>cpus.
       if cpus < cpu_cores cfg then Inr (False, ''No of CPU are not as expected.'')
       else
     exn_bind (lsblk_count node_obj) (\<lambda>disks.
       if disks < min_disks cfg
       then Inr (False, ''Need at least '' @ str_int (min_disks cfg) @ '' disks for deployment'')
       else
     exn_bind (os_rel node_obj) (\<lambda>rel.
       if rel \<notin> set (os_release cfg) then Inr (False, ''OS version is different than expected.'')
       else
     exn_bind (krnl_ver node_obj) (\<lambda>ver.
       if ver \<notin> set (kernel cfg) then Inr (False, ''Kernel Version is different than expected.'')
       else Inr (True, ''Prerequisite VM check successful''))))))"

section \<open>Cluster status and convergence polling\<close>

text \<open>
  \<^verbatim>\<open>get_hctl_status\<close> reads the document that \<^verbatim>\<open>json.loads\<close> gives for the output of
  the status command (a JSON number with a fraction is not modelled).  \<^verbatim>\<open>for x in v\<close>
  runs over the items of a list, the keys of a mapping and the characters of a string.
  \<^verbatim>\<open>"{}".format(v)\<close> is the text of a string, the digits of an integer, \<^verbatim>\<open>True\<close>,
  \<^verbatim>\<open>False\<close> or \<^verbatim>\<open>None\<close>; for a list or a mapping it is Python's \<^verbatim>\<open>repr\<close>, a
  parameter here.
\<close>

definition py_iter :: "yaml \<Rightarrow> py_exn + yaml list" where
  "py_iter v =
     (case v of
        YSeq xs \<Rightarrow> Inr xs
      | YMap m \<Rightarrow> Inr (map (\<lambda>(k, _). YStr k) m)
      | YStr s \<Rightarrow> Inr (map (\<lambda>c. YStr [c]) s)
      | _ \<Rightarrow> Inl TypeError)"

definition py_str :: "(yaml \<Rightarrow> string) \<Rightarrow> yaml \<Rightarrow> string" where
  "py_str py_repr v =
     (case v of
        YStr s \<Rightarrow> s
      | YInt i \<Rightarrow> str_int i
      | YBool b \<Rightarrow> (if b then ''True'' else ''False'')
      | YNull \<Rightarrow> ''None''
      | _ \<Rightarrow> py_repr v)"

text \<open>The loop over the services of one node: \<open>Some r\<close> is \<^verbatim>\<open>return r\<close>, \<open>None\<close> is
  the loop running to its end.\<close>

fun svcs_loop :: "(yaml \<Rightarrow> string) \<Rightarrow> yaml list \<Rightarrow> py_exn + (bool \<times> string) option" where
  "svcs_loop py_repr [] = Inr None"
| "svcs_loop py_repr (svc # rest) =
     exn_bind (py_getitem svc ''status'') (\<lambda>status.
       if status \<noteq> YStr ''started'' then
         exn_bind (py_getitem svc ''name'') (\<lambda>name.
           Inr (Some (False, ''Service '' @ py_str py_repr name @ '' not started.'')))
       else svcs_loop py_repr rest)"

fun nodes_loop :: "(yaml \<Rightarrow> string) \<Rightarrow> yaml list \<Rightarrow> py_exn + (bool \<times> string) option" where
  "nodes_loop py_repr [] = Inr None"
| "nodes_loop py_repr (node_data # rest) =
     exn_bind (py_getitem node_data ''svcs'') (\<lambda>services.
     exn_bind (py_iter services) (\<lambda>svcs.
     exn_bind (svcs_loop py_repr svcs) (\<lambda>r.
       case r of Some x \<Rightarrow> Inr (Some x) | None \<Rightarrow> nodes_loop py_repr rest)))"

text \<open>The argument is the outcome of running the status command, decoding its output
  and parsing it.\<close>

definition get_hctl_status :: "(yaml \<Rightarrow> string) \<Rightarrow> py_exn + yaml \<Rightarrow> py_exn + bool \<times> string" where
  "get_hctl_status py_repr out =
     exn_bind out (\<lambda>cluster_status.
       if cluster_status \<noteq> YNull then
         exn_bind (py_getitem cluster_status ''nodes'') (\<lambda>nodes_data.
         exn_bind (py_iter nodes_data) (\<lambda>nodes.
         exn_bind (nodes_loop py_repr nodes) (\<lambda>r.
           case r of Some x \<Rightarrow> Inr x | None \<Rightarrow> Inr (True, ''Cluster is up and running.''))))
       else Inr (False, ''Cluster status is not retrieved.''))"

text \<open>
  The polling loop of \<^verbatim>\<open>test_deployment\<close>:
  \<^verbatim>\<open>while int(time.time()) < end_time: resp = get_hctl_status(...); if resp[0]: break; time.sleep(60)\<close>.
  The clock counts whole seconds.  \<open>hctl t\<close> is what the status command started at time
  \<open>t\<close> gives and how many seconds it takes; \<^verbatim>\<open>time.sleep(60)\<close> takes 60 seconds.  The
  result is the times at which the status was queried and, unless a query raised, the
  last \<open>resp\<close> and the clock after the loop.
\<close>

function hctl_poll ::
  "(yaml \<Rightarrow> string) \<Rightarrow> (int \<Rightarrow> (py_exn + yaml) \<times> nat) \<Rightarrow> int \<Rightarrow> int \<Rightarrow> bool \<times> string \<Rightarrow> int list
     \<Rightarrow> int list \<times> (py_exn + ((bool \<times> string) \<times> int))" where
  "hctl_poll py_repr hctl end_time now resp polls =
     (if now < end_time then
        (case get_hctl_status py_repr (fst (hctl now)) of
           Inl e \<Rightarrow> (polls @ [now], Inl e)
         | Inr r \<Rightarrow>
             if fst r then (polls @ [now], Inr (r, now + int (snd (hctl now))))
             else hctl_poll py_repr hctl end_time (now + int (snd (hctl now)) + 60) r
                    (polls @ [now]))
      else (polls, Inr (resp, now)))"
  by pat_completeness auto
termination
  by (relation "measure (\<lambda>(py_repr, hctl, end_time, now, resp, polls). nat (end_time - now))")
    auto

text \<open>Modelled from the spec: \<^verbatim>\<open>assert_utils.assert_true\<close> is not among the sources;
  a failed check of a phase is raised at once, with the message given.\<close>

definition assert_true :: "bool \<Rightarrow> string \<Rightarrow> py_exn + unit" where
  "assert_true b msg = (if b then Inr () else Inl (AssertionError msg))"

text \<open>\<^verbatim>\<open>start_time = int(time.time()); end_time = start_time + 1800\<close>, the loop, and
  \<^verbatim>\<open>assert_true(resp[0], resp[1])\<close> after it.  \<open>resp\<close> is what \<^verbatim>\<open>get_pod_name\<close> returned
  before.\<close>

definition wait_for_cluster ::
  "(yaml \<Rightarrow> string) \<Rightarrow> (int \<Rightarrow> (py_exn + yaml) \<times> nat) \<Rightarrow> int \<Rightarrow> bool \<times> string
     \<Rightarrow> int list \<times> (py_exn + int)" where
  "wait_for_cluster py_repr hctl start_time resp =
     (case hctl_poll py_repr hctl (start_time + 1800) start_time resp [] of
        (polls, Inl e) \<Rightarrow> (polls, Inl e)
      | (polls, Inr (r, now)) \<Rightarrow>
          (polls, exn_bind (assert_true (fst r) (snd r)) (\<lambda>_. Inr now)))"

section \<open>Teardown\<close>

text \<open>
  \<^verbatim>\<open>destroy_setup\<close>.  The whole body is one \<^verbatim>\<open>try\<close> block whose handler returns
  \<^verbatim>\<open>False, error\<close>.  The model returns the commands that were run, in order, each with
  the host it ran on, and the value returned: \<open>Inr resp\<close> is \<^verbatim>\<open>True, resp\<close> and \<open>Inl error\<close>
  is \<^verbatim>\<open>False, error\<close>.
\<close>

fun destroy_workers ::
  "string \<Rightarrow> string \<Rightarrow> node list \<Rightarrow> cmd_out \<Rightarrow> (string \<times> string) list
     \<Rightarrow> (string \<times> string) list \<times> (py_exn + cmd_out)" where
  "destroy_workers cmd2 cmd3 [] resp trace = (trace, Inr resp)"
| "destroy_workers cmd2 cmd3 (worker # rest) resp trace =
     (case execute_cmd worker cmd2 True of
        Inl e \<Rightarrow> (trace @ [(hostname worker, cmd2)], Inl e)
      | Inr _ \<Rightarrow>
          (case execute_cmd worker cmd3 True of
             Inl e \<Rightarrow> (trace @ [(hostname worker, cmd2), (hostname worker, cmd3)], Inl e)
           | Inr resp' \<Rightarrow>
               destroy_workers cmd2 cmd3 rest resp'
                 (trace @ [(hostname worker, cmd2), (hostname worker, cmd3)])))"

definition destroy_cmd1 :: "deploy_cfg \<Rightarrow> string" where
  "destroy_cmd1 cfg = ''cd '' @ git_remote_dir cfg @ '' && '' @ destroy_cluster cfg @ '' --force''"

definition destroy_cmd2 :: "deploy_cfg \<Rightarrow> string" where
  "destroy_cmd2 cfg = ''umount '' @ local_path_prov cfg"

definition destroy_cmd3 :: string where
  "destroy_cmd3 = ''rm -rf /etc/3rd-party/openldap /var/data/3rd-party/''"

definition destroy_setup ::
  "deploy_cfg \<Rightarrow> node \<Rightarrow> node list \<Rightarrow> (string \<times> string) list \<times> (py_exn + cmd_out)" where
  "destroy_setup cfg master_node_obj worker_node_obj =
     (case execute_cmd master_node_obj (destroy_cmd1 cfg) False of
        Inl e \<Rightarrow> ([(hostname master_node_obj, destroy_cmd1 cfg)], Inl e)
      | Inr resp \<Rightarrow>
          destroy_workers (destroy_cmd2 cfg) destroy_cmd3 worker_node_obj resp
            [(hostname master_node_obj, destroy_cmd1 cfg)])"


section \<open>The deployment run\<close>

text \<open>The phase toggles of \<^verbatim>\<open>test_deployment\<close>, after the defaults of the
  configuration are filled in.\<close>

record run_flags =
  setup_k8s_cluster_flag :: bool
  cortx_cluster_deploy_flag :: bool
  setup_client_config_flag :: bool
  run_basic_s3_io_flag :: bool
  run_s3bench_workload_flag :: bool
  destroy_setup_flag :: bool

text \<open>
  What the collaborators of \<^verbatim>\<open>test_deployment\<close> outside the modelled methods give:
  the Jenkins job (\<open>build_job\<close> is the \<^verbatim>\<open>result\<close> field of its output), the template
  that \<^verbatim>\<open>checkout_solution_file\<close> downloads, \<^verbatim>\<open>deploy_cortx_cluster\<close> on the
  prepared manifest and the system disks, the status command with the clock at the
  start of polling, the client configuration calls (\<open>get_local_keys\<close> stands for
  \<^verbatim>\<open>S3H_OBJ.get_local_keys()\<close> and the construction of \<^verbatim>\<open>S3TestLib\<close> after it) and the
  two IO steps.
\<close>

record deploy_env =
  build_job :: "py_exn + string"
  checkout_solution_file :: "py_exn + yaml"
  deploy_cortx_cluster :: "yaml \<Rightarrow> (string \<times> string) list \<Rightarrow> py_exn + bool \<times> string"
  hctl_status :: "int \<Rightarrow> (py_exn + yaml) \<times> nat"
  clock :: int
  repr_of :: "yaml \<Rightarrow> string"
  decrypt_of :: "string \<Rightarrow> string"
  cortx_image_of :: string
  get_ip_iface :: "py_exn + unit"
  configure_haproxy_lb :: "py_exn + unit"
  post_deployment_steps_lc :: "py_exn + bool \<times> string"
  get_local_keys :: "py_exn + unit"
  basic_io_write_read_validate :: "py_exn + unit"
  io_workload :: "py_exn + unit"

text \<open>The calls that \<^verbatim>\<open>test_deployment\<close> makes, as they appear in its trace.\<close>

datatype call =
    Call_setup_k8s_cluster
  | Call_validate_master_tainted string
  | Call_taint_master string
  | Call_checkout_solution_file
  | Call_update_sol_yaml
  | Call_deploy_cortx_cluster
  | Call_get_pod_name
  | Call_get_hctl_status int
  | Call_get_ip_iface
  | Call_configure_haproxy_lb
  | Call_post_deployment_steps_lc
  | Call_get_local_keys
  | Call_basic_io_write_read_validate
  | Call_io_workload
  | Call_destroy_setup

text \<open>Sequencing: the trace so far, and how the run goes on.\<close>

definition then_do :: "call list \<times> 'a step \<Rightarrow> ('a \<Rightarrow> call list \<times> 'b step) \<Rightarrow> call list \<times> 'b step" where
  "then_do m f =
     (case snd m of
        Done x \<Rightarrow> (fst m @ fst (f x), snd (f x))
      | Raised e \<Rightarrow> (fst m, Raised e)
      | Diverged \<Rightarrow> (fst m, Diverged)
      | Failed msg \<Rightarrow> (fst m, Failed msg))"

definition do_call :: "call list \<Rightarrow> py_exn + 'a \<Rightarrow> call list \<times> 'a step" where
  "do_call cs m = (cs, case m of Inl e \<Rightarrow> Raised e | Inr x \<Rightarrow> Done x)"

text \<open>\<^verbatim>\<open>setup_k8s_cluster\<close>.\<close>

definition setup_k8s_cluster :: "deploy_env \<Rightarrow> node list \<Rightarrow> node list \<Rightarrow> py_exn + bool \<times> string" where
  "setup_k8s_cluster env master_node_list worker_node_list =
     (if length master_node_list > 0 then
        if length worker_node_list > 0 then
          exn_bind (build_job env) (\<lambda>result.
            if result = ''SUCCESS'' then Inr (True, result) else Inr (False, result))
        else Inr (False, ''Worker Node List is empty'')
      else Inr (False, ''Master Node List is empty''))"

text \<open>\<^verbatim>\<open>for node in master_node_list: if not validate_master_tainted(node): taint_master(node)\<close>.\<close>

fun taint_masters :: "node list \<Rightarrow> call list \<times> unit step" where
  "taint_masters [] = ([], Done ())"
| "taint_masters (n # rest) =
     then_do (do_call [Call_validate_master_tainted (hostname n)] (chk_taint n)) (\<lambda>tainted.
     then_do (if \<not> tainted then do_call [Call_taint_master (hostname n)] (taint_node n)
              else ([], Done ())) (\<lambda>_.
     taint_masters rest))"

definition phase_k8s :: "deploy_env \<Rightarrow> node list \<Rightarrow> node list \<Rightarrow> call list \<times> unit step" where
  "phase_k8s env master_node_list worker_node_list =
     then_do (do_call [Call_setup_k8s_cluster]
                (setup_k8s_cluster env master_node_list worker_node_list)) (\<lambda>resp.
     then_do (do_call [] (assert_true (fst resp) (snd resp))) (\<lambda>_.
     taint_masters master_node_list))"

text \<open>\<^verbatim>\<open>master_node_list[0]\<close>.\<close>

definition first_master :: "node list \<Rightarrow> py_exn + node" where
  "first_master master_node_list =
     (case master_node_list of [] \<Rightarrow> Inl IndexError | m # _ \<Rightarrow> Inr m)"

text \<open>The keyword arguments that \<^verbatim>\<open>test_deployment\<close> passes to \<^verbatim>\<open>update_sol_yaml\<close>,
  with the defaults of \<^verbatim>\<open>update_sol_yaml\<close> for the others.\<close>

definition deployment_kwargs ::
  "deploy_cfg \<Rightarrow> int \<Rightarrow> int \<Rightarrow> int \<Rightarrow> int \<Rightarrow> int \<Rightarrow> int \<Rightarrow> int \<Rightarrow> int \<Rightarrow> sol_kwargs" where
  "deployment_kwargs cfg sns_n sns_k sns_s dix_n dix_k dix_s g d =
     \<lparr>cvg_count = g, data_disk_per_cvg = d, cvg_type = ''ios'',
      sns_data = sns_n, sns_parity = sns_k, sns_spare = sns_s,
      dix_data = dix_n, dix_parity = dix_k, dix_spare = dix_s,
      size_metadata = ''20Gi'', size_data_disk = ''20Gi'', glusterfs_size = ''20Gi'',
      skip_disk_count_check = False, third_party_images_dict = third_party_images cfg\<rparr>"

text \<open>The polling loop as calls: one \<open>Call_get_hctl_status\<close> for each time the status
  was queried.\<close>

definition poll_calls ::
  "deploy_env \<Rightarrow> bool \<times> string \<Rightarrow> call list \<times> unit step" where
  "poll_calls env resp =
     (case wait_for_cluster (repr_of env) (hctl_status env) (clock env) resp of
        (polls, r) \<Rightarrow> do_call (map Call_get_hctl_status polls) (exn_bind r (\<lambda>_. Inr ())))"

definition phase_deploy ::
  "deploy_cfg \<Rightarrow> deploy_env \<Rightarrow> sol_kwargs \<Rightarrow> node list \<Rightarrow> node list \<Rightarrow> call list \<times> unit step" where
  "phase_deploy cfg env kw master_node_list worker_node_list =
     then_do (do_call [Call_checkout_solution_file] (checkout_solution_file env)) (\<lambda>template.
     then_do ([Call_update_sol_yaml],
              case update_sol_yaml cfg (decrypt_of env) worker_node_list template
                     (cortx_image_of env) kw of
                (conf, Raised e) \<Rightarrow> Raised e
              | (conf, Diverged) \<Rightarrow> Diverged
              | (conf, Failed m) \<Rightarrow> Raised (AssertionError ''Failure updating solution.yaml'')
              | (conf, Done system_disk_dict) \<Rightarrow> Done (conf, system_disk_dict))
       (\<lambda>(conf, system_disk_dict).
     then_do (do_call [Call_deploy_cortx_cluster] (deploy_cortx_cluster env conf system_disk_dict))
       (\<lambda>resp.
     then_do (do_call [] (assert_true (fst resp) (snd resp))) (\<lambda>_.
     then_do (do_call [] (first_master master_node_list)) (\<lambda>master.
     then_do (do_call [Call_get_pod_name] (get_pod_name master)) (\<lambda>resp.
     poll_calls env resp))))))"

definition phase_client :: "deploy_env \<Rightarrow> run_flags \<Rightarrow> node list \<Rightarrow> call list \<times> unit step" where
  "phase_client env flags master_node_list =
     then_do (do_call [Call_get_ip_iface] (get_ip_iface env)) (\<lambda>_.
     then_do (do_call [] (first_master master_node_list)) (\<lambda>master.
     then_do (do_call [Call_configure_haproxy_lb] (configure_haproxy_lb env)) (\<lambda>_.
     then_do (do_call [Call_post_deployment_steps_lc] (post_deployment_steps_lc env)) (\<lambda>resp.
     then_do (do_call [] (assert_true (fst resp) (snd resp))) (\<lambda>_.
     then_do (do_call [Call_get_local_keys] (get_local_keys env)) (\<lambda>_.
     then_do (if run_basic_s3_io_flag flags
              then do_call [Call_basic_io_write_read_validate] (basic_io_write_read_validate env)
              else ([], Done ())) (\<lambda>_.
     if run_s3bench_workload_flag flags
     then do_call [Call_io_workload] (io_workload env)
     else ([], Done ()))))))))"

definition phase_destroy :: "deploy_cfg \<Rightarrow> node list \<Rightarrow> node list \<Rightarrow> call list \<times> unit step" where
  "phase_destroy cfg master_node_list worker_node_list =
     then_do (do_call [] (first_master master_node_list)) (\<lambda>master.
     do_call [Call_destroy_setup]
       (case snd (destroy_setup cfg master worker_node_list) of
          Inr resp \<Rightarrow> Inr ()
        | Inl error \<Rightarrow> Inl (AssertionError_of error)))"

text \<open>\<^verbatim>\<open>test_deployment\<close>: the four phases in order, each behind its flag.\<close>

definition test_deployment ::
  "deploy_cfg \<Rightarrow> deploy_env \<Rightarrow> run_flags \<Rightarrow> int \<Rightarrow> int \<Rightarrow> int \<Rightarrow> int \<Rightarrow> int \<Rightarrow> int \<Rightarrow> int \<Rightarrow> int
     \<Rightarrow> node list \<Rightarrow> node list \<Rightarrow> call list \<times> unit step" where
  "test_deployment cfg env flags sns_n sns_k sns_s dix_n dix_k dix_s g d
       master_node_list worker_node_list =
     then_do (if setup_k8s_cluster_flag flags
              then phase_k8s env master_node_list worker_node_list
              else ([], Done ())) (\<lambda>_.
     then_do (if cortx_cluster_deploy_flag flags
              then phase_deploy cfg env
                     (deployment_kwargs cfg sns_n sns_k sns_s dix_n dix_k dix_s g d)
                     master_node_list worker_node_list
              else ([], Done ())) (\<lambda>_.
     then_do (if setup_client_config_flag flags
              then phase_client env flags master_node_list
              else ([], Done ())) (\<lambda>_.
     if destroy_setup_flag flags
     then phase_destroy cfg master_node_list worker_node_list
     else ([], Done ()))))"

section \<open>Notions used to state the properties\<close>

text \<open>Reading a value back along a path of keys, as a caller that reloads the manifest
  does.\<close>

fun py_path :: "yaml \<Rightarrow> string list \<Rightarrow> py_exn + yaml" where
  "py_path v [] = Inr v"
| "py_path v (k # ks) = exn_bind (py_getitem v k) (\<lambda>v'. py_path v' ks)"

text \<open>The value of \<^verbatim>\<open>data_disk_per_cvg\<close> that an iteration of the partitioning loop
  works with: the one carried over, or the one derived from the device list when that
  is 0.\<close>

definition effective_d :: "sol_kwargs \<Rightarrow> part_state \<Rightarrow> string list \<Rightarrow> int" where
  "effective_d kw st device_list =
     (if st_data_disk_per_cvg st = 0
      then trunc_div (int (length (py_slice_from device_list (cvg_count kw + 1)))) (cvg_count kw)
      else st_data_disk_per_cvg st)"

text \<open>The value of a decimal numeral, to read \<open>str_nat\<close> back.\<close>

definition nat_of_digits :: "string \<Rightarrow> nat" where
  "nat_of_digits s = foldl (\<lambda>a c. 10 * a + (of_char c - 48)) 0 s"

text \<open>The two IO steps of \<^verbatim>\<open>test_deployment\<close>.\<close>

definition io_call :: "call \<Rightarrow> bool" where
  "io_call c \<longleftrightarrow> c = Call_basic_io_write_read_validate \<or> c = Call_io_workload"

text \<open>The cleanup commands of one worker, and a worker on which both succeed.\<close>

definition worker_cmds :: "deploy_cfg \<Rightarrow> node \<Rightarrow> (string \<times> string) list" where
  "worker_cmds cfg w = [(hostname w, destroy_cmd2 cfg), (hostname w, destroy_cmd3)]"

definition cleanup_ok :: "deploy_cfg \<Rightarrow> node \<Rightarrow> bool" where
  "cleanup_ok cfg w \<longleftrightarrow>
     (\<exists>r. execute_cmd w (destroy_cmd2 cfg) True = Inr r) \<and>
     (\<exists>r. execute_cmd w destroy_cmd3 True = Inr r)"

text \<open>A status document of the shape \<^verbatim>\<open>nodes[].svcs[].{name,status}\<close>, built from the
  services of each node as pairs of name and status, and the documents in which every
  service is started.\<close>

definition svc_doc :: "string \<times> string \<Rightarrow> yaml" where
  "svc_doc s = YMap [(''name'', YStr (fst s)), (''status'', YStr (snd s))]"

definition status_doc :: "(string \<times> string) list list \<Rightarrow> yaml" where
  "status_doc nodes =
     YMap [(''nodes'', YSeq (map (\<lambda>svcs. YMap [(''svcs'', YSeq (map svc_doc svcs))]) nodes))]"

definition all_started :: "(string \<times> string) list list \<Rightarrow> bool" where
  "all_started nodes \<longleftrightarrow> list_all (\<lambda>s. snd s = ''started'') (concat nodes)"


text \<open>
  What a status document reports, read with the same lookups as \<^verbatim>\<open>get_hctl_status\<close>:
  the nodes under \<^verbatim>\<open>nodes\<close>, the services of a node under \<^verbatim>\<open>svcs\<close>, the state of
  a service under \<^verbatim>\<open>status\<close>.  Any further keys may be present.  In a document where
  every service is started, each of these lookups gives a value and each state is the
  string \<^verbatim>\<open>started\<close>.  A document has the shape of a status report when the lookups
  give values, every service has a \<^verbatim>\<open>status\<close>, whatever it is, and every service
  whose state is not \<^verbatim>\<open>started\<close> has a \<^verbatim>\<open>name\<close>.
\<close>

definition is_ok :: "py_exn + 'a \<Rightarrow> bool" where
  "is_ok m = (case m of Inr _ \<Rightarrow> True | Inl _ \<Rightarrow> False)"

definition nodes_of :: "yaml \<Rightarrow> py_exn + yaml list" where
  "nodes_of doc = exn_bind (py_getitem doc ''nodes'') py_iter"

definition svcs_of :: "yaml \<Rightarrow> py_exn + yaml list" where
  "svcs_of node_data = exn_bind (py_getitem node_data ''svcs'') py_iter"

definition svc_started :: "yaml \<Rightarrow> bool" where
  "svc_started svc \<longleftrightarrow> py_getitem svc ''status'' = Inr (YStr ''started'')"

definition node_started :: "yaml \<Rightarrow> bool" where
  "node_started node_data =
     (case svcs_of node_data of Inr svcs \<Rightarrow> list_all svc_started svcs | Inl _ \<Rightarrow> False)"

definition all_services_started :: "yaml \<Rightarrow> bool" where
  "all_services_started doc \<longleftrightarrow>
     doc \<noteq> YNull \<and>
     (case nodes_of doc of Inr nodes \<Rightarrow> list_all node_started nodes | Inl _ \<Rightarrow> False)"

definition svc_shape :: "yaml \<Rightarrow> bool" where
  "svc_shape svc \<longleftrightarrow>
     is_ok (py_getitem svc ''status'') \<and>
     (\<not> svc_started svc \<longrightarrow> is_ok (py_getitem svc ''name''))"

definition node_shape :: "yaml \<Rightarrow> bool" where
  "node_shape node_data =
     (case svcs_of node_data of Inr svcs \<Rightarrow> list_all svc_shape svcs | Inl _ \<Rightarrow> False)"

definition status_shape :: "yaml \<Rightarrow> bool" where
  "status_shape doc \<longleftrightarrow>
     doc \<noteq> YNull \<and>
     (case nodes_of doc of Inr nodes \<Rightarrow> list_all node_shape nodes | Inl _ \<Rightarrow> False)"

definition reported_services :: "yaml \<Rightarrow> yaml list" where
  "reported_services doc =
     (case nodes_of doc of
        Inr nodes \<Rightarrow>
          concat (map (\<lambda>n. case svcs_of n of Inr svcs \<Rightarrow> svcs | Inl _ \<Rightarrow> []) nodes)
      | Inl _ \<Rightarrow> [])"

text \<open>
  Decimal notation, stated without the formatter: \<open>decimal_of i s\<close> holds when \<open>s\<close> is
  the numeral of \<open>i\<close>, that is a minus sign for a negative number, then digits only, at
  least one, with no leading zero except for the numeral \<^verbatim>\<open>0\<close> itself, whose value is
  the magnitude of \<open>i\<close>.
\<close>

definition is_digit :: "char \<Rightarrow> bool" where
  "is_digit c \<longleftrightarrow> c \<in> set ''0123456789''"

definition canonical_digits :: "string \<Rightarrow> bool" where
  "canonical_digits ds \<longleftrightarrow>
     ds \<noteq> [] \<and> list_all is_digit ds \<and> (hd ds = CHR ''0'' \<longrightarrow> ds = ''0'')"

definition decimal_of :: "int \<Rightarrow> string \<Rightarrow> bool" where
  "decimal_of i s \<longleftrightarrow>
     (if i < 0
      then (case s of
              [] \<Rightarrow> False
            | c # ds \<Rightarrow> c = CHR ''-'' \<and> canonical_digits ds \<and> int (nat_of_digits ds) = - i)
      else canonical_digits s \<and> int (nat_of_digits s) = i)"

section \<open>Example inputs\<close>

definition example_cfg :: deploy_cfg where
  "example_cfg =
     \<lparr>cpu_cores = 4, min_disks = 7, os_release = [''7.9.2009''],
      kernel = [''3.10.0-1160.el7.x86_64''],
      third_party_images = [(''consul'', ''consul:1.10.0''), (''kafka'', ''3.0.0'')],
      cortx_images_key = [''cortxdata''],
      password = [(''csm_mgmt_admin_secret'', ''gAAAA'')],
      local_path_prov = ''/mnt/fs-local-volume'',
      s3_max_start_timeout = YInt 240,
      git_remote_dir = ''/root/cortx-k8s/'',
      destroy_cluster = ''./destroy-cortx-cloud.sh''\<rparr>"

text \<open>A healthy node with the given host name and device listing.\<close>

definition example_node :: "string \<Rightarrow> string \<Rightarrow> node" where
  "example_node h line =
     \<lparr>hostname = h, ping = Inr (), num_cpu = Inr 8, lsblk_count = Inr 7,
      os_rel = Inr ''7.9.2009'', krnl_ver = Inr ''3.10.0-1160.el7.x86_64'',
      list_devices = Inr [line], chk_taint = Inr True, taint_node = Inr (),
      get_pod_name = Inr (True, ''cortx-data-pod-0''),
      execute_cmd = (\<lambda>cmd read_lines. Inr (Out_lines []))\<rparr>"

text \<open>A worker on which the given command line fails.\<close>

definition example_failing_node :: "string \<Rightarrow> string \<Rightarrow> node" where
  "example_failing_node h bad =
     (example_node h ''a,b,c,d,e,f,g'')
       \<lparr>execute_cmd := (\<lambda>cmd read_lines.
           if cmd = bad then Inl (ExecutionFailure ''failed'') else Inr (Out_lines []))\<rparr>"

definition example_conf :: yaml where
  "example_conf =
     YMap [(''solution'',
       YMap [(''secrets'', YMap [(''content'', YMap [])]),
             (''images'', YMap [(''cortxdata'', YStr ''cortx:old'')]),
             (''common'',
               YMap [(''s3'', YMap []),
                     (''glusterfs'', YMap [(''size'', YStr ''5Gi'')]),
                     (''storage_sets'',
                       YMap [(''durability'', YMap [(''sns'', YStr ''4+2+0'')])])]),
             (''storage'', YMap [(''cvg1'', YNull)]),
             (''nodes'', YMap [(''node1'', YMap [(''name'', YStr ''old'')])])])]"

definition example_kwargs :: sol_kwargs where
  "example_kwargs =
     \<lparr>cvg_count = 2, data_disk_per_cvg = 2, cvg_type = ''ios'',
      sns_data = 1, sns_parity = 0, sns_spare = 0,
      dix_data = 1, dix_parity = 0, dix_spare = 0,
      size_metadata = ''20Gi'', size_data_disk = ''20Gi'', glusterfs_size = ''20Gi'',
      skip_disk_count_check = False,
      third_party_images_dict = [(''consul'', ''consul:1.10.0''), (''kafka'', ''3.0.0'')]\<rparr>"

definition example_flags :: run_flags where
  "example_flags =
     \<lparr>setup_k8s_cluster_flag = False, cortx_cluster_deploy_flag = False,
      setup_client_config_flag = False, run_basic_s3_io_flag = True,
      run_s3bench_workload_flag = True, destroy_setup_flag = True\<rparr>"

text \<open>Two status documents with more keys than the lookups need: one with a stopped
  service, one with every service started.\<close>

definition example_status_down :: yaml where
  "example_status_down =
     YMap [(''pools'', YSeq []),
           (''nodes'',
             YSeq [YMap [(''name'', YStr ''node-1''),
                         (''svcs'',
                           YSeq [YMap [(''name'', YStr ''hax''), (''status'', YStr ''started''),
                                       (''class'', YStr ''m0_client'')],
                                 YMap [(''name'', YStr ''ioservice''),
                                       (''status'', YStr ''offline'')]])]])]"

definition example_status_up :: yaml where
  "example_status_up =
     YMap [(''pools'', YSeq []),
           (''nodes'',
             YSeq [YMap [(''name'', YStr ''node-1''),
                         (''svcs'',
                           YSeq [YMap [(''name'', YStr ''hax''), (''status'', YStr ''started''),
                                       (''class'', YStr ''m0_client'')]])],
                   YMap [(''svcs'', YSeq [YMap [(''status'', YStr ''started'')]])]])]"

text \<open>A status command that takes no time and always reports the stopped service, and
  one that takes two seconds and reports every service started.\<close>

definition example_hctl_down :: "int \<Rightarrow> (py_exn + yaml) \<times> nat" where
  "example_hctl_down t = (Inr example_status_down, 0)"

definition example_hctl_up :: "int \<Rightarrow> (py_exn + yaml) \<times> nat" where
  "example_hctl_up t = (Inr example_status_up, 2)"

definition example_env :: deploy_env where
  "example_env =
     \<lparr>build_job = Inr ''SUCCESS'', checkout_solution_file = Inr example_conf,
      deploy_cortx_cluster = (\<lambda>conf disks. Inr (True, ''deployed'')),
      hctl_status = example_hctl_up, clock = 0,
      repr_of = (\<lambda>v. []), decrypt_of = (\<lambda>s. s), cortx_image_of = ''cortx:1'',
      get_ip_iface = Inr (), configure_haproxy_lb = Inr (),
      post_deployment_steps_lc = Inr (True, ''Post Deployment Steps Successful!!''),
      get_local_keys = Inr (), basic_io_write_read_validate = Inr (),
      io_workload = Inr ()\<rparr>"

section \<open>Basic facts\<close>

declare str_nat.simps [simp del]
declare hctl_poll.simps [simp del]

lemma exn_bind_simps [simp]:
  "exn_bind (Inl e) f = Inl e"
  "exn_bind (Inr x) f = f x"
  by (simp_all add: exn_bind_def)

lemma exn_bind_InrE:
  assumes "exn_bind m f = Inr y"
  obtains x where "m = Inr x" and "f x = Inr y"
  using assms by (cases m) auto

lemma py_setitem_InrE:
  assumes "py_setitem obj k v = Inr obj'"
  obtains m where "obj = YMap m" and "obj' = YMap (AList.update k v m)"
  using assms by (cases obj) (auto simp: py_setitem_def)

lemma py_getitem_InrE:
  assumes "py_getitem obj k = Inr v"
  obtains m where "obj = YMap m" and "map_of m k = Some v"
  using assms by (cases obj) (auto simp: py_getitem_def split: option.splits)

lemma py_getitem_update [simp]:
  "py_getitem (YMap (AList.update k v m)) k' = (if k' = k then Inr v else py_getitem (YMap m) k')"
  by (simp add: py_getitem_def update_conv')

lemma py_setitem_YMap [simp]: "py_setitem (YMap m) k v = Inr (YMap (AList.update k v m))"
  by (simp add: py_setitem_def)

lemma as_dict_InrE:
  assumes "as_dict obj = Inr m"
  shows "obj = YMap m"
  using assms by (cases obj) (auto simp: as_dict_def)

lemma str_nat_digit: "n < 10 \<Longrightarrow> str_nat n = [digit_char n]"
  by (subst str_nat.simps) simp

lemma str_int_digit: "0 \<le> i \<Longrightarrow> i < 10 \<Longrightarrow> str_int i = [digit_char (nat i)]"
  by (simp add: str_int_def str_nat_digit)

section \<open>Prerequisite checks\<close>

text \<open>
  C8.  On a node where the ping and the four queries give values, \<^verbatim>\<open>prereq_vm\<close>
  returns the failure of the first check that fails, each with a message of its own, and
  it returns success exactly when the CPU count is at least the threshold, the disk
  count is at least the minimum, and the OS release and the kernel version are in their
  allow-lists.
\<close>

theorem prereq_vm_checks:
  assumes "ping n = Inr ()" and "num_cpu n = Inr c" and "lsblk_count n = Inr k"
    and "os_rel n = Inr r" and "krnl_ver n = Inr v"
  shows "prereq_vm cfg n =
           Inr (if c < cpu_cores cfg then (False, ''No of CPU are not as expected.'')
                else if k < min_disks cfg
                  then (False, ''Need at least '' @ str_int (min_disks cfg) @ '' disks for deployment'')
                else if r \<notin> set (os_release cfg) then (False, ''OS version is different than expected.'')
                else if v \<notin> set (kernel cfg) then (False, ''Kernel Version is different than expected.'')
                else (True, ''Prerequisite VM check successful''))
         \<and> ((\<exists>m. prereq_vm cfg n = Inr (True, m)) \<longleftrightarrow>
              cpu_cores cfg \<le> c \<and> min_disks cfg \<le> k \<and> r \<in> set (os_release cfg) \<and> v \<in> set (kernel cfg))"
  using assms by (auto simp: prereq_vm_def)

theorem prereq_vm_checks_witness:
  "prereq_vm example_cfg (example_node ''w1'' ''a,b,c,d,e,f,g'')
     = Inr (True, ''Prerequisite VM check successful'')
   \<and> prereq_vm example_cfg ((example_node ''w1'' ''a,b,c,d,e,f,g'')\<lparr>lsblk_count := Inr 3\<rparr>)
     = Inr (False, ''Need at least 7 disks for deployment'')"
  using prereq_vm_checks [of "example_node ''w1'' ''a,b,c,d,e,f,g''" 8 7 "''7.9.2009''"
      "''3.10.0-1160.el7.x86_64''" example_cfg]
    prereq_vm_checks [of "(example_node ''w1'' ''a,b,c,d,e,f,g'')\<lparr>lsblk_count := Inr 3\<rparr>" 8 3
      "''7.9.2009''" "''3.10.0-1160.el7.x86_64''" example_cfg]
  by (simp add: example_node_def example_cfg_def str_int_digit digit_char_def)

section \<open>The IO steps of a deployment run\<close>

lemma then_do_set:
  "c \<in> set (fst (then_do m f)) \<Longrightarrow> c \<in> set (fst m) \<or> (\<exists>x. c \<in> set (fst (f x)))"
  by (auto simp: then_do_def split: step.splits)

lemma do_call_fst [simp]: "fst (do_call cs m) = cs"
  by (simp add: do_call_def)

lemma taint_masters_calls:
  "c \<in> set (fst (taint_masters ms)) \<Longrightarrow> \<not> io_call c"
proof (induction ms)
  case Nil
  then show ?case by simp
next
  case (Cons n rest)
  then show ?case
    by (auto simp: io_call_def dest!: then_do_set split: if_splits)
qed

lemma phase_k8s_no_io: "c \<in> set (fst (phase_k8s env ms ws)) \<Longrightarrow> \<not> io_call c"
  unfolding phase_k8s_def
  by (auto dest!: then_do_set taint_masters_calls) (simp add: io_call_def)

lemma poll_calls_no_io: "c \<in> set (fst (poll_calls env resp)) \<Longrightarrow> \<not> io_call c"
  by (auto simp: poll_calls_def io_call_def split: prod.splits)

lemma phase_deploy_no_io: "c \<in> set (fst (phase_deploy cfg env kw ms ws)) \<Longrightarrow> \<not> io_call c"
  unfolding phase_deploy_def
  by (auto dest!: then_do_set poll_calls_no_io) (simp_all add: io_call_def)

lemma phase_destroy_no_io: "c \<in> set (fst (phase_destroy cfg ms ws)) \<Longrightarrow> \<not> io_call c"
  unfolding phase_destroy_def
  by (auto dest!: then_do_set) (simp_all add: io_call_def)

text \<open>
  C10.  When \<^verbatim>\<open>setup_client_config_flag\<close> is false, the trace of \<^verbatim>\<open>test_deployment\<close>
  holds neither the call of \<^verbatim>\<open>basic_io_write_read_validate\<close> nor the call of
  \<^verbatim>\<open>io_workload\<close>, whatever the other flags, the arguments and the environment are.
\<close>

theorem no_io_without_client_config:
  assumes "\<not> setup_client_config_flag flags"
  shows "Call_basic_io_write_read_validate \<notin>
           set (fst (test_deployment cfg env flags sn sk ss dn dk ds g d ms ws))
       \<and> Call_io_workload \<notin>
           set (fst (test_deployment cfg env flags sn sk ss dn dk ds g d ms ws))"
proof -
  have "\<not> io_call c"
    if "c \<in> set (fst (test_deployment cfg env flags sn sk ss dn dk ds g d ms ws))" for c
    using that assms unfolding test_deployment_def
    by (auto dest!: then_do_set phase_k8s_no_io phase_deploy_no_io phase_destroy_no_io
             split: if_splits)
  then show ?thesis by (auto simp: io_call_def)
qed

theorem no_io_without_client_config_witness:
  "\<not> setup_client_config_flag example_flags
   \<and> run_basic_s3_io_flag example_flags \<and> run_s3bench_workload_flag example_flags
   \<and> Call_basic_io_write_read_validate \<notin>
       set (fst (test_deployment example_cfg example_env example_flags 1 0 0 1 0 0 2 2
                   [example_node ''m1'' ''a'']
                   [example_node ''w1'' ''a,b,c,d,e,f,g'']))
   \<and> Call_io_workload \<notin>
       set (fst (test_deployment example_cfg example_env example_flags 1 0 0 1 0 0 2 2
                   [example_node ''m1'' ''a'']
                   [example_node ''w1'' ''a,b,c,d,e,f,g'']))"
  using no_io_without_client_config [of example_flags example_cfg example_env 1 0 0 1 0 0 2 2
      "[example_node ''m1'' ''a'']" "[example_node ''w1'' ''a,b,c,d,e,f,g'']"]
  by (simp add: example_flags_def)

text \<open>With the client configuration on and every step succeeding, both IO steps run,
  after the client configuration.\<close>

lemma client_phase_runs_io:
  "test_deployment example_cfg example_env
     (example_flags\<lparr>setup_client_config_flag := True, destroy_setup_flag := False\<rparr>)
     1 0 0 1 0 0 2 2 [example_node ''m1'' ''a''] [example_node ''w1'' ''a,b,c,d,e,f,g'']
   = ([Call_get_ip_iface, Call_configure_haproxy_lb, Call_post_deployment_steps_lc,
       Call_get_local_keys, Call_basic_io_write_read_validate, Call_io_workload], Done ())"
  by (simp add: test_deployment_def phase_client_def example_flags_def example_env_def
        then_do_def do_call_def first_master_def assert_true_def)

section \<open>Teardown order and abort\<close>

lemma destroy_workers_prefix:
  assumes "\<forall>w \<in> set pre. (\<exists>r. execute_cmd w c2 True = Inr r) \<and> (\<exists>r. execute_cmd w c3 True = Inr r)"
  shows "\<exists>resp'. destroy_workers c2 c3 (pre @ rest) resp trace =
           destroy_workers c2 c3 rest resp'
             (trace @ concat (map (\<lambda>w. [(hostname w, c2), (hostname w, c3)]) pre))"
  using assms
proof (induction pre arbitrary: resp trace)
  case Nil
  then show ?case by auto
next
  case (Cons w pre)
  from Cons.prems obtain r2 r3 where
    r: "execute_cmd w c2 True = Inr r2" "execute_cmd w c3 True = Inr r3" by auto
  from Cons.prems
  have "\<forall>w \<in> set pre. (\<exists>r. execute_cmd w c2 True = Inr r) \<and> (\<exists>r. execute_cmd w c3 True = Inr r)"
    by simp
  from Cons.IH [OF this, of r3 "trace @ [(hostname w, c2), (hostname w, c3)]"]
  show ?case using r by simp
qed

lemma destroy_workers_trace:
  "\<exists>more. fst (destroy_workers c2 c3 ws resp trace) = trace @ more"
proof (induction ws arbitrary: resp trace)
  case Nil
  then show ?case by simp
next
  case (Cons w ws)
  show ?case
  proof (cases "execute_cmd w c2 True")
    case (Inl e)
    then show ?thesis by simp
  next
    case r2: (Inr r2)
    show ?thesis
    proof (cases "execute_cmd w c3 True")
      case (Inl e)
      with r2 show ?thesis by simp
    next
      case (Inr r3)
      from Cons.IH [of r3 "trace @ [(hostname w, c2), (hostname w, c3)]"]
      obtain more where
        "fst (destroy_workers c2 c3 ws r3 (trace @ [(hostname w, c2), (hostname w, c3)]))
           = (trace @ [(hostname w, c2), (hostname w, c3)]) @ more" by blast
      with r2 Inr show ?thesis by auto
    qed
  qed
qed

text \<open>
  C7, as the code has it.  The teardown command on the master is the first command of
  every run of \<^verbatim>\<open>destroy_setup\<close>.  When it has succeeded and the workers \<open>pre\<close> have
  been cleaned, a failure of the unmount or of the removal on the next worker \<open>w\<close> ends
  the run: the commands run are the master's, those of \<open>pre\<close> and those of \<open>w\<close> up
  to the failing one, nothing runs on the workers \<open>post\<close> after it, and the error is
  returned as \<^verbatim>\<open>False, error\<close>.
\<close>

theorem destroy_setup_order_and_abort:
  "(\<exists>more. fst (destroy_setup cfg m ws) = (hostname m, destroy_cmd1 cfg) # more)
   \<and> ((\<forall>w \<in> set pre. cleanup_ok cfg w) \<and>
      execute_cmd m (destroy_cmd1 cfg) False = Inr r1 \<and>
      execute_cmd w (destroy_cmd2 cfg) True = Inl e \<longrightarrow>
      destroy_setup cfg m (pre @ w # post) =
        ((hostname m, destroy_cmd1 cfg) # concat (map (worker_cmds cfg) pre)
           @ [(hostname w, destroy_cmd2 cfg)], Inl e))
   \<and> ((\<forall>w \<in> set pre. cleanup_ok cfg w) \<and>
      execute_cmd m (destroy_cmd1 cfg) False = Inr r1 \<and>
      execute_cmd w (destroy_cmd2 cfg) True = Inr r2 \<and>
      execute_cmd w destroy_cmd3 True = Inl e \<longrightarrow>
      destroy_setup cfg m (pre @ w # post) =
        ((hostname m, destroy_cmd1 cfg) # concat (map (worker_cmds cfg) pre)
           @ worker_cmds cfg w, Inl e))"
proof (intro conjI impI)
  show "\<exists>more. fst (destroy_setup cfg m ws) = (hostname m, destroy_cmd1 cfg) # more"
  proof (cases "execute_cmd m (destroy_cmd1 cfg) False")
    case (Inl e)
    then show ?thesis by (simp add: destroy_setup_def)
  next
    case (Inr r)
    with destroy_workers_trace [of "destroy_cmd2 cfg" destroy_cmd3 ws r
        "[(hostname m, destroy_cmd1 cfg)]"]
    show ?thesis by (auto simp: destroy_setup_def)
  qed
next
  assume a: "(\<forall>w \<in> set pre. cleanup_ok cfg w) \<and>
      execute_cmd m (destroy_cmd1 cfg) False = Inr r1 \<and>
      execute_cmd w (destroy_cmd2 cfg) True = Inl e"
  then have "\<forall>w \<in> set pre. (\<exists>r. execute_cmd w (destroy_cmd2 cfg) True = Inr r) \<and>
       (\<exists>r. execute_cmd w destroy_cmd3 True = Inr r)"
    by (simp add: cleanup_ok_def)
  from destroy_workers_prefix [OF this, of "w # post" r1 "[(hostname m, destroy_cmd1 cfg)]"] a
  show "destroy_setup cfg m (pre @ w # post) =
        ((hostname m, destroy_cmd1 cfg) # concat (map (worker_cmds cfg) pre)
           @ [(hostname w, destroy_cmd2 cfg)], Inl e)"
    by (auto simp: destroy_setup_def worker_cmds_def [abs_def])
next
  assume a: "(\<forall>w \<in> set pre. cleanup_ok cfg w) \<and>
      execute_cmd m (destroy_cmd1 cfg) False = Inr r1 \<and>
      execute_cmd w (destroy_cmd2 cfg) True = Inr r2 \<and>
      execute_cmd w destroy_cmd3 True = Inl e"
  then have "\<forall>w \<in> set pre. (\<exists>r. execute_cmd w (destroy_cmd2 cfg) True = Inr r) \<and>
       (\<exists>r. execute_cmd w destroy_cmd3 True = Inr r)"
    by (simp add: cleanup_ok_def)
  from destroy_workers_prefix [OF this, of "w # post" r1 "[(hostname m, destroy_cmd1 cfg)]"] a
  show "destroy_setup cfg m (pre @ w # post) =
        ((hostname m, destroy_cmd1 cfg) # concat (map (worker_cmds cfg) pre)
           @ worker_cmds cfg w, Inl e)"
    by (auto simp: destroy_setup_def worker_cmds_def [abs_def])
qed

lemma example_cmds:
  "destroy_cmd1 example_cfg = ''cd /root/cortx-k8s/ && ./destroy-cortx-cloud.sh --force''"
  "destroy_cmd2 example_cfg = ''umount /mnt/fs-local-volume''"
  by (simp_all add: destroy_cmd1_def destroy_cmd2_def example_cfg_def)

theorem destroy_setup_order_and_abort_witness:
  "destroy_setup example_cfg (example_node ''m1'' ''a'')
     ([example_node ''w0'' ''a,b,c,d,e,f,g'']
        @ example_failing_node ''w1'' ''umount /mnt/fs-local-volume''
        # [example_node ''w2'' ''a,b,c,d,e,f,g'']) =
     ([(''m1'', ''cd /root/cortx-k8s/ && ./destroy-cortx-cloud.sh --force''),
       (''w0'', ''umount /mnt/fs-local-volume''),
       (''w0'', ''rm -rf /etc/3rd-party/openldap /var/data/3rd-party/''),
       (''w1'', ''umount /mnt/fs-local-volume'')],
      Inl (ExecutionFailure ''failed''))
   \<and> destroy_setup example_cfg (example_node ''m1'' ''a'')
     ([example_node ''w0'' ''a,b,c,d,e,f,g'']
        @ example_failing_node ''w1'' ''rm -rf /etc/3rd-party/openldap /var/data/3rd-party/''
        # [example_node ''w2'' ''a,b,c,d,e,f,g'']) =
     ([(''m1'', ''cd /root/cortx-k8s/ && ./destroy-cortx-cloud.sh --force''),
       (''w0'', ''umount /mnt/fs-local-volume''),
       (''w0'', ''rm -rf /etc/3rd-party/openldap /var/data/3rd-party/''),
       (''w1'', ''umount /mnt/fs-local-volume''),
       (''w1'', ''rm -rf /etc/3rd-party/openldap /var/data/3rd-party/'')],
      Inl (ExecutionFailure ''failed''))"
  using destroy_setup_order_and_abort [of example_cfg "example_node ''m1'' ''a''" "[]"
      "[example_node ''w0'' ''a,b,c,d,e,f,g'']" "Out_lines []"
      "example_failing_node ''w1'' ''umount /mnt/fs-local-volume''"
      "ExecutionFailure ''failed''" "[example_node ''w2'' ''a,b,c,d,e,f,g'']" "Out_lines []"]
    destroy_setup_order_and_abort [of example_cfg "example_node ''m1'' ''a''" "[]"
      "[example_node ''w0'' ''a,b,c,d,e,f,g'']" "Out_lines []"
      "example_failing_node ''w1'' ''rm -rf /etc/3rd-party/openldap /var/data/3rd-party/''"
      "ExecutionFailure ''failed''" "[example_node ''w2'' ''a,b,c,d,e,f,g'']" "Out_lines []"]
  by (simp add: example_cmds destroy_cmd3_def cleanup_ok_def worker_cmds_def example_node_def
        example_failing_node_def)

theorem destroy_setup_continue_counterexample:
  "destroy_setup example_cfg (example_node ''m1'' ''a'')
     [example_failing_node ''w1'' ''umount /mnt/fs-local-volume'',
      example_node ''w2'' ''a,b,c,d,e,f,g''] =
     ([(''m1'', ''cd /root/cortx-k8s/ && ./destroy-cortx-cloud.sh --force''),
       (''w1'', ''umount /mnt/fs-local-volume'')],
      Inl (ExecutionFailure ''failed''))"
  by (simp add: destroy_setup_def example_cmds destroy_cmd3_def example_node_def
        example_failing_node_def)

section \<open>Convergence polling\<close>







text \<open>The documents that consist of nothing but the nodes, their services and the name
  and state of each are status reports, and every service of one is started when every
  state listed is \<^verbatim>\<open>started\<close>.\<close>

lemma status_doc_shape:
  "status_shape (status_doc nodes) \<and>
   (all_services_started (status_doc nodes) \<longleftrightarrow> all_started nodes)"
proof -
  have svc: "svc_shape (svc_doc s) \<and> (svc_started (svc_doc s) \<longleftrightarrow> snd s = ''started'')" for s
    by (simp add: svc_shape_def svc_started_def svc_doc_def py_getitem_def is_ok_def)
  have nd: "node_shape (YMap [(''svcs'', YSeq (map svc_doc svcs))]) \<and>
      (node_started (YMap [(''svcs'', YSeq (map svc_doc svcs))]) \<longleftrightarrow>
         list_all (\<lambda>s. snd s = ''started'') svcs)" for svcs
    by (simp add: node_shape_def node_started_def svcs_of_def py_getitem_def py_iter_def svc
          list_all_iff)
  have nodes: "nodes_of (status_doc nodes) =
      Inr (map (\<lambda>svcs. YMap [(''svcs'', YSeq (map svc_doc svcs))]) nodes)"
    by (simp add: nodes_of_def status_doc_def py_getitem_def py_iter_def)
  have ne: "status_doc nodes \<noteq> YNull" by (simp add: status_doc_def)
  show ?thesis
    unfolding status_shape_def all_services_started_def all_started_def nodes
    using ne by (auto simp: list_all_iff nd)
qed





lemma example_status_down_services:
  "reported_services example_status_down =
     [YMap [(''name'', YStr ''hax''), (''status'', YStr ''started''),
            (''class'', YStr ''m0_client'')],
      YMap [(''name'', YStr ''ioservice''), (''status'', YStr ''offline'')]]"
  by (simp add: reported_services_def example_status_down_def nodes_of_def svcs_of_def
        py_getitem_def py_iter_def)

lemma example_poll_times:
  "wait_for_cluster (\<lambda>v. []) example_hctl_down 0 (True, ''cortx-data-pod-0'') =
     (map (\<lambda>i. 60 * int i) [0 ..< 30],
      Inl (AssertionError ''Service ioservice not started.''))"
proof -
  have st: "get_hctl_status r (fst (example_hctl_down t)) =
              Inr (False, ''Service ioservice not started.'')" for r t
    by (simp add: example_hctl_down_def example_status_down_def get_hctl_status_def
          py_getitem_def py_iter_def py_str_def)
  have dur: "snd (example_hctl_down t) = 0" for t
    by (simp add: example_hctl_down_def)
  have step: "t < 1800 \<Longrightarrow>
      hctl_poll r example_hctl_down 1800 t resp polls =
      hctl_poll r example_hctl_down 1800 (t + 60)
        (False, ''Service ioservice not started.'') (polls @ [t])" for r t resp polls
    by (subst hctl_poll.simps) (simp add: st dur)
  have stop: "hctl_poll r example_hctl_down 1800 1800 resp polls = (polls, Inr (resp, 1800))"
    for r resp polls
    by (subst hctl_poll.simps) simp
  have upt: "[0 ..< 30] = [0, 1, 2, 3, 4, 5, 6, 7, 8, 9, 10, 11, 12, 13, 14, 15, 16, 17, 18, 19,
      20, 21, 22, 23, 24, 25, 26, 27, 28, 29 :: nat]"
    by (simp add: upt_rec)
  show ?thesis
    unfolding wait_for_cluster_def upt
    by (simp add: step stop assert_true_def)
qed


section \<open>Durability fields of the manifest\<close>

text \<open>The formatter writes numerals: \<open>str_int i\<close> is the decimal numeral of \<open>i\<close>.\<close>

lemma digit_char_value: "d < 10 \<Longrightarrow> of_char (digit_char d) = 48 + d"
proof -
  assume "d < 10"
  then have "d \<in> {0, 1, 2, 3, 4, 5, 6, 7, 8, 9}" by auto
  then show ?thesis by (auto simp: digit_char_def)
qed

lemma nat_of_digits_snoc:
  "nat_of_digits (s @ [c]) = 10 * nat_of_digits s + (of_char c - 48)"
  by (simp add: nat_of_digits_def)

lemma nat_of_digits_str_nat: "nat_of_digits (str_nat n) = n"
proof (induction n rule: str_nat.induct)
  case (1 n)
  show ?case
  proof (cases "n < 10")
    case True
    then show ?thesis
      by (subst str_nat.simps) (simp add: nat_of_digits_def digit_char_value)
  next
    case False
    have "n mod 10 < 10" by simp
    then have "of_char (digit_char (n mod 10)) - 48 = n mod 10"
      by (simp add: digit_char_value)
    with False "1.IH" show ?thesis
      by (subst str_nat.simps) (simp add: nat_of_digits_snoc)
  qed
qed

lemma digit_char_digit: "d < 10 \<Longrightarrow> is_digit (digit_char d)"
proof -
  assume "d < 10"
  then have "d \<in> {0, 1, 2, 3, 4, 5, 6, 7, 8, 9}" by auto
  then show ?thesis by (auto simp: digit_char_def is_digit_def)
qed

lemma digit_char_zero: "d < 10 \<Longrightarrow> digit_char d = CHR ''0'' \<Longrightarrow> d = 0"
proof -
  assume "d < 10" and z: "digit_char d = CHR ''0''"
  then have "d \<in> {0, 1, 2, 3, 4, 5, 6, 7, 8, 9}" by auto
  with z show ?thesis by (auto simp: digit_char_def)
qed

lemma str_nat_nonempty: "str_nat n \<noteq> []"
  by (subst str_nat.simps) simp

lemma str_nat_digits: "list_all is_digit (str_nat n)"
proof (induction n rule: str_nat.induct)
  case (1 n)
  show ?case
  proof (cases "n < 10")
    case True
    with digit_char_digit [of n] show ?thesis by (subst str_nat.simps) simp
  next
    case False
    have "n mod 10 < 10" by simp
    from digit_char_digit [OF this] False "1.IH" show ?thesis
      by (subst str_nat.simps) simp
  qed
qed

lemma str_nat_hd: "0 < n \<Longrightarrow> hd (str_nat n) \<noteq> CHR ''0''"
proof (induction n rule: str_nat.induct)
  case (1 n)
  show ?case
  proof (cases "n < 10")
    case True
    with "1.prems" digit_char_zero [of n] show ?thesis
      by (subst str_nat.simps) auto
  next
    case False
    then have "0 < n div 10" by simp
    with False "1.IH" have "hd (str_nat (n div 10)) \<noteq> CHR ''0''" by simp
    with False show ?thesis
      by (subst str_nat.simps) (simp add: str_nat_nonempty)
  qed
qed

lemma canonical_str_nat: "canonical_digits (str_nat n)"
proof (cases "n = 0")
  case True
  then show ?thesis
    by (simp add: canonical_digits_def str_nat_digit digit_char_def is_digit_def)
next
  case False
  then have "hd (str_nat n) \<noteq> CHR ''0''" by (simp add: str_nat_hd)
  then show ?thesis
    by (simp add: canonical_digits_def str_nat_nonempty str_nat_digits)
qed

lemma decimal_of_str_int: "decimal_of i (str_int i)"
  by (simp add: decimal_of_def str_int_def canonical_str_nat nat_of_digits_str_nat)

lemma nks_format_decimal:
  "\<exists>a b c. nks_format n k s = a @ ''+'' @ b @ ''+'' @ c \<and>
           decimal_of n a \<and> decimal_of k b \<and> decimal_of s c"
  unfolding nks_format_def using decimal_of_str_int by blast

lemma data_schema_loop_ok:
  assumes "\<forall>k \<in> set ks. cvg < length dd \<and> k < length (dd ! cvg)"
  shows "\<exists>r. data_schema_loop dd cvg sd ks acc = Inr r"
  using assms by (induction ks arbitrary: acc) (auto simp: py_nth_def)

lemma cvg_loop_ok:
  assumes "\<forall>c \<in> set cs. c < length md \<and> (0 < d \<longrightarrow> c < length dd \<and> nat d \<le> length (dd ! c))"
  shows "\<exists>r. cvg_loop md dd ct d sm sd cs st = Inr r"
  using assms
proof (induction cs arbitrary: st)
  case Nil
  then show ?case by simp
next
  case (Cons c cs)
  then have c: "c < length md" "0 < d \<longrightarrow> c < length dd \<and> nat d \<le> length (dd ! c)" by auto
  then have "\<forall>k \<in> set [0 ..< nat d]. c < length dd \<and> k < length (dd ! c)" by auto
  from data_schema_loop_ok [OF this] obtain ds where
    ds: "data_schema_loop dd c sd [0 ..< nat d] [] = Inr ds" by blast
  from Cons.prems have "\<forall>c \<in> set cs. c < length md \<and> (0 < d \<longrightarrow> c < length dd \<and> nat d \<le> length (dd ! c))"
    by simp
  from Cons.IH [OF this] c(1) ds show ?case by (simp add: py_nth_def)
qed

text \<open>
  C6.  Whenever \<^verbatim>\<open>update_cvg_sol_file\<close> writes the manifest, the document written has
  at \<^verbatim>\<open>solution.common.storage_sets.durability.sns\<close> a text made of three parts joined
  by two \<^verbatim>\<open>+\<close> signs, the parts being the decimal numerals of \<^verbatim>\<open>sns_data\<close>,
  \<^verbatim>\<open>sns_parity\<close> and \<^verbatim>\<open>sns_spare\<close> in this order, and at \<^verbatim>\<open>dix\<close> the same for
  the three DIX integers.  It does write the manifest when the template has the
  \<^verbatim>\<open>durability\<close>, \<^verbatim>\<open>glusterfs\<close> and \<^verbatim>\<open>storage\<close> mappings and the device lists
  cover every volume group.
\<close>

theorem durability_round_trip:
  "(update_cvg_sol_file conf metadata data g c_type d sns_n sns_k sns_s dix_n dix_k dix_s
        size_meta size_data gluster = Inr conf' \<longrightarrow>
      (\<exists>a b c.
         py_path conf' [''solution'', ''common'', ''storage_sets'', ''durability'', ''sns'']
           = Inr (YStr (a @ ''+'' @ b @ ''+'' @ c)) \<and>
         decimal_of sns_n a \<and> decimal_of sns_k b \<and> decimal_of sns_s c) \<and>
      (\<exists>a b c.
         py_path conf' [''solution'', ''common'', ''storage_sets'', ''durability'', ''dix'']
           = Inr (YStr (a @ ''+'' @ b @ ''+'' @ c)) \<and>
         decimal_of dix_n a \<and> decimal_of dix_k b \<and> decimal_of dix_s c))
   \<and> (py_path conf [''solution'', ''common'', ''storage_sets'', ''durability''] = Inr (YMap du) \<and>
      py_path conf [''solution'', ''common'', ''glusterfs''] = Inr (YMap gl) \<and>
      py_path conf [''solution'', ''storage''] = Inr (YMap sto) \<and>
      (\<forall>c < nat g. c < length metadata \<and>
                    (0 < d \<longrightarrow> c < length data \<and> nat d \<le> length (data ! c))) \<longrightarrow>
      (\<exists>written. update_cvg_sol_file conf metadata data g c_type d sns_n sns_k sns_s
                   dix_n dix_k dix_s size_meta size_data gluster = Inr written))"
proof (intro conjI impI)
  assume w: "update_cvg_sol_file conf metadata data g c_type d sns_n sns_k sns_s dix_n dix_k dix_s
        size_meta size_data gluster = Inr conf'"
  then have sns: "py_path conf' [''solution'', ''common'', ''storage_sets'', ''durability'', ''sns'']
        = Inr (YStr (nks_format sns_n sns_k sns_s))"
    unfolding update_cvg_sol_file_def Let_def
    by (elim exn_bind_InrE py_setitem_InrE; auto dest!: as_dict_InrE)
  from w have dix: "py_path conf' [''solution'', ''common'', ''storage_sets'', ''durability'', ''dix'']
        = Inr (YStr (nks_format dix_n dix_k dix_s))"
    unfolding update_cvg_sol_file_def Let_def
    by (elim exn_bind_InrE py_setitem_InrE; auto dest!: as_dict_InrE)
  from nks_format_decimal [of sns_n sns_k sns_s] sns
  show "\<exists>a b c.
         py_path conf' [''solution'', ''common'', ''storage_sets'', ''durability'', ''sns'']
           = Inr (YStr (a @ ''+'' @ b @ ''+'' @ c)) \<and>
         decimal_of sns_n a \<and> decimal_of sns_k b \<and> decimal_of sns_s c"
    by metis
  from nks_format_decimal [of dix_n dix_k dix_s] dix
  show "\<exists>a b c.
         py_path conf' [''solution'', ''common'', ''storage_sets'', ''durability'', ''dix'']
           = Inr (YStr (a @ ''+'' @ b @ ''+'' @ c)) \<and>
         decimal_of dix_n a \<and> decimal_of dix_k b \<and> decimal_of dix_s c"
    by metis
next
  assume a: "py_path conf [''solution'', ''common'', ''storage_sets'', ''durability''] = Inr (YMap du) \<and>
      py_path conf [''solution'', ''common'', ''glusterfs''] = Inr (YMap gl) \<and>
      py_path conf [''solution'', ''storage''] = Inr (YMap sto) \<and>
      (\<forall>c < nat g. c < length metadata \<and>
                    (0 < d \<longrightarrow> c < length data \<and> nat d \<le> length (data ! c)))"
  then obtain sol where sol: "py_getitem conf ''solution'' = Inr sol"
    and sto: "py_getitem sol ''storage'' = Inr (YMap sto)"
    by (auto elim!: exn_bind_InrE)
  from a sol obtain common where common: "py_getitem sol ''common'' = Inr common"
    and gl: "py_getitem common ''glusterfs'' = Inr (YMap gl)"
    by (auto elim!: exn_bind_InrE)
  from a sol common obtain sets where sets: "py_getitem common ''storage_sets'' = Inr sets"
    and du: "py_getitem sets ''durability'' = Inr (YMap du)"
    by (auto elim!: exn_bind_InrE)
  from sol obtain cm where cm: "conf = YMap cm" by (rule py_getitem_InrE)
  from sto obtain sm where sm: "sol = YMap sm" by (rule py_getitem_InrE)
  from gl obtain com where com: "common = YMap com" by (rule py_getitem_InrE)
  from du obtain setm where setm: "sets = YMap setm" by (rule py_getitem_InrE)
  from a have "\<forall>c \<in> set [0 ..< nat g]. c < length metadata \<and>
      (0 < d \<longrightarrow> c < length data \<and> nat d \<le> length (data ! c))" by simp
  from cvg_loop_ok [OF this] obtain storage' where
    "cvg_loop metadata data c_type d size_meta size_data [0 ..< nat g] [] = Inr storage'"
    by blast
  with sol sto common gl sets du
  show "\<exists>written. update_cvg_sol_file conf metadata data g c_type d sns_n sns_k sns_s
                   dix_n dix_k dix_s size_meta size_data gluster = Inr written"
    unfolding cm sm com setm
    by (simp add: update_cvg_sol_file_def Let_def as_dict_def)
qed

text \<open>The manifest written for the SNS numbers 4, 2, 1 and the DIX numbers 12, 3, 0.\<close>

lemma example_durability_written:
  "exn_bind
     (update_cvg_sol_file example_conf [''b'', ''c''] [[''d'', ''e''], [''f'', ''g'']] 2 ''ios'' 2
        4 2 1 12 3 0 ''20Gi'' ''20Gi'' ''20Gi'')
     (\<lambda>written.
        exn_bind
          (py_path written [''solution'', ''common'', ''storage_sets'', ''durability'', ''sns''])
          (\<lambda>sns.
             exn_bind
               (py_path written [''solution'', ''common'', ''storage_sets'', ''durability'', ''dix''])
               (\<lambda>dix. Inr (sns, dix))))
     = Inr (YStr ''4+2+1'', YStr ''12+3+0'')"
  by code_simp

theorem durability_round_trip_witness:
  "\<exists>written.
     update_cvg_sol_file example_conf [''b'', ''c''] [[''d'', ''e''], [''f'', ''g'']] 2 ''ios'' 2
       4 2 1 12 3 0 ''20Gi'' ''20Gi'' ''20Gi'' = Inr written \<and>
     py_path written [''solution'', ''common'', ''storage_sets'', ''durability'', ''sns'']
       = Inr (YStr ''4+2+1'') \<and>
     py_path written [''solution'', ''common'', ''storage_sets'', ''durability'', ''dix'']
       = Inr (YStr ''12+3+0'') \<and>
     (\<exists>a b c. ''4+2+1'' = a @ ''+'' @ b @ ''+'' @ c \<and>
              decimal_of 4 a \<and> decimal_of 2 b \<and> decimal_of 1 c) \<and>
     (\<exists>a b c. ''12+3+0'' = a @ ''+'' @ b @ ''+'' @ c \<and>
              decimal_of 12 a \<and> decimal_of 3 b \<and> decimal_of 0 c)"
proof -
  have "py_path example_conf [''solution'', ''common'', ''storage_sets'', ''durability'']
          = Inr (YMap [(''sns'', YStr ''4+2+0'')]) \<and>
        py_path example_conf [''solution'', ''common'', ''glusterfs'']
          = Inr (YMap [(''size'', YStr ''5Gi'')]) \<and>
        py_path example_conf [''solution'', ''storage''] = Inr (YMap [(''cvg1'', YNull)]) \<and>
        (\<forall>c < nat 2. c < length [''b'', ''c''] \<and>
           ((0::int) < 2 \<longrightarrow> c < length [[''d'', ''e''], [''f'', ''g'']] \<and>
              nat 2 \<le> length ([[''d'', ''e''], [''f'', ''g'']] ! c)))"
    by (auto simp: example_conf_def py_getitem_def less_Suc_eq numeral_2_eq_2)
  with durability_round_trip [of example_conf "[''b'', ''c'']" "[[''d'', ''e''], [''f'', ''g'']]"
      2 "''ios''" 2 4 2 1 12 3 0 "''20Gi''" "''20Gi''" "''20Gi''" _
      "[(''sns'', YStr ''4+2+0'')]" "[(''size'', YStr ''5Gi'')]" "[(''cvg1'', YNull)]"]
  obtain written where
    w: "update_cvg_sol_file example_conf [''b'', ''c''] [[''d'', ''e''], [''f'', ''g'']] 2 ''ios'' 2
          4 2 1 12 3 0 ''20Gi'' ''20Gi'' ''20Gi'' = Inr written"
    by blast
  from durability_round_trip [of example_conf "[''b'', ''c'']" "[[''d'', ''e''], [''f'', ''g'']]"
      2 "''ios''" 2 4 2 1 12 3 0 "''20Gi''" "''20Gi''" "''20Gi''" written] w
  obtain a b c a' b' c' where
    r: "py_path written [''solution'', ''common'', ''storage_sets'', ''durability'', ''sns'']
          = Inr (YStr (a @ ''+'' @ b @ ''+'' @ c))"
       "decimal_of 4 a" "decimal_of 2 b" "decimal_of 1 c"
       "py_path written [''solution'', ''common'', ''storage_sets'', ''durability'', ''dix'']
          = Inr (YStr (a' @ ''+'' @ b' @ ''+'' @ c'))"
       "decimal_of 12 a'" "decimal_of 3 b'" "decimal_of 0 c'"
    by blast
  from example_durability_written w r(1,5)
  have e: "a @ ''+'' @ b @ ''+'' @ c = ''4+2+1''" "a' @ ''+'' @ b' @ ''+'' @ c' = ''12+3+0''"
    by simp_all
  from e(1) r(2-4) have s: "\<exists>a b c. ''4+2+1'' = a @ ''+'' @ b @ ''+'' @ c \<and>
              decimal_of 4 a \<and> decimal_of 2 b \<and> decimal_of 1 c"
    by metis
  from e(2) r(6-8) have d: "\<exists>a b c. ''12+3+0'' = a @ ''+'' @ b @ ''+'' @ c \<and>
              decimal_of 12 a \<and> decimal_of 3 b \<and> decimal_of 0 c"
    by metis
  from w r(1,5) e s d show ?thesis by (intro exI [of _ written]) simp
qed

section \<open>The images section of the manifest\<close>

lemma update_fresh: "k \<notin> fst ` set al \<Longrightarrow> AList.update k v al = al @ [(k, v)]"
  by (induction al) auto

lemma dict_update_Cons: "dict_update d ((k, v) # e) = dict_update (AList.update k v d) e"
  by (simp add: dict_update_def)

lemma dict_update_Nil [simp]: "dict_update d [] = d"
  by (simp add: dict_update_def)

lemma dict_update_distinct:
  "distinct (map fst (d @ e)) \<Longrightarrow> dict_update d e = d @ e"
proof (induction e arbitrary: d)
  case Nil
  then show ?case by simp
next
  case (Cons kv e)
  obtain k v where kv: "kv = (k, v)" by (cases kv)
  from Cons.prems kv have "k \<notin> fst ` set d" by auto
  then have u: "AList.update k v d = d @ [(k, v)]" by (rule update_fresh)
  from Cons.prems kv have "distinct (map fst ((d @ [(k, v)]) @ e))" by auto
  from Cons.IH [OF this] u kv show ?case by (simp add: dict_update_Cons)
qed

lemma map_of_dict_update_notin:
  "k \<notin> fst ` set e \<Longrightarrow> map_of (dict_update d e) k = map_of d k"
proof (induction e arbitrary: d)
  case Nil
  then show ?case by simp
next
  case (Cons kv e)
  obtain k' v where kv: "kv = (k', v)" by (cases kv)
  with Cons show ?case by (auto simp: dict_update_Cons update_conv')
qed

lemma map_of_dict_update_in:
  "distinct (map fst e) \<Longrightarrow> (k, v) \<in> set e \<Longrightarrow> map_of (dict_update d e) k = Some v"
proof (induction e arbitrary: d)
  case Nil
  then show ?case by simp
next
  case (Cons kv e)
  obtain k' v' where kv: "kv = (k', v')" by (cases kv)
  show ?case
  proof (cases "(k, v) \<in> set e")
    case True
    with Cons kv show ?thesis by (simp add: dict_update_Cons)
  next
    case False
    with Cons.prems kv have eq: "k' = k" "v' = v" by auto
    with Cons.prems kv have "k \<notin> fst ` set e" by auto
    from map_of_dict_update_notin [OF this] eq kv show ?thesis
      by (simp add: dict_update_Cons update_conv')
  qed
qed

lemma image_loop_result:
  assumes "distinct (map fst tp)"
    and "\<forall>k \<in> fst ` set tp. k \<in> fst ` set (third_party_images cfg) \<longrightarrow> k \<in> fst ` set dflt"
  shows "\<exists>img' dflt'. image_loop cfg tp img dflt = Inr (img', dflt') \<and>
           (\<forall>k. map_of img' k =
              (if k \<in> fst ` set tp \<and> k \<in> fst ` set (third_party_images cfg)
               then map_option YStr (map_of tp k) else map_of img k)) \<and>
           (\<forall>k. map_of dflt' k =
              (if k \<in> fst ` set tp \<and> k \<in> fst ` set (third_party_images cfg)
               then None else map_of dflt k))"
  using assms
proof (induction tp arbitrary: img dflt)
  case Nil
  then show ?case by simp
next
  case (Cons kv tp)
  obtain key val where kv: "kv = (key, val)" by (cases kv)
  from Cons.prems kv have d: "distinct (map fst tp)" and nk: "key \<notin> fst ` set tp" by auto
  show ?case
  proof (cases "key \<in> fst ` set (third_party_images cfg)")
    case False
    from Cons.prems(2) have "\<forall>k \<in> fst ` set tp. k \<in> fst ` set (third_party_images cfg) \<longrightarrow> k \<in> fst ` set dflt"
      by auto
    from Cons.IH [OF d this, of img] obtain img' dflt' where
      r: "image_loop cfg tp img dflt = Inr (img', dflt')"
         "\<forall>k. map_of img' k =
              (if k \<in> fst ` set tp \<and> k \<in> fst ` set (third_party_images cfg)
               then map_option YStr (map_of tp k) else map_of img k)"
         "\<forall>k. map_of dflt' k =
              (if k \<in> fst ` set tp \<and> k \<in> fst ` set (third_party_images cfg)
               then None else map_of dflt k)" by blast
    from r False kv show ?thesis by auto
  next
    case True
    with Cons.prems(2) kv have kin: "key \<in> fst ` set dflt" by auto
    have "\<forall>k \<in> fst ` set tp. k \<in> fst ` set (third_party_images cfg) \<longrightarrow>
             k \<in> fst ` set (AList.delete key dflt)"
    proof (intro ballI impI)
      fix k assume k: "k \<in> fst ` set tp" "k \<in> fst ` set (third_party_images cfg)"
      with Cons.prems(2) have "k \<in> fst ` set dflt" by auto
      moreover from k nk have "k \<noteq> key" by auto
      ultimately show "k \<in> fst ` set (AList.delete key dflt)"
        by (metis delete_conv' dom_map_of_conv_image_fst domIff fun_upd_other)
    qed
    from Cons.IH [OF d this, of "AList.update key (YStr val) img"] obtain img' dflt' where
      r: "image_loop cfg tp (AList.update key (YStr val) img) (AList.delete key dflt) = Inr (img', dflt')"
         "\<forall>k. map_of img' k =
              (if k \<in> fst ` set tp \<and> k \<in> fst ` set (third_party_images cfg)
               then map_option YStr (map_of tp k) else map_of (AList.update key (YStr val) img) k)"
         "\<forall>k. map_of dflt' k =
              (if k \<in> fst ` set tp \<and> k \<in> fst ` set (third_party_images cfg)
               then None else map_of (AList.delete key dflt) k)" by blast
    have "image_loop cfg (kv # tp) img dflt = Inr (img', dflt')"
      using r(1) True kin kv by (simp add: dict_pop_def)
    moreover have "\<forall>k. map_of img' k =
              (if k \<in> fst ` set (kv # tp) \<and> k \<in> fst ` set (third_party_images cfg)
               then map_option YStr (map_of (kv # tp) k) else map_of img k)"
      using r(2) True kv nk by (auto simp: update_conv')
    moreover have "\<forall>k. map_of dflt' k =
              (if k \<in> fst ` set (kv # tp) \<and> k \<in> fst ` set (third_party_images cfg)
               then None else map_of dflt k)"
      using r(3) True kv nk by (auto simp: delete_conv')
    ultimately show ?thesis by blast
  qed
qed

text \<open>
  C5, as the code has it.  On a manifest with a \<^verbatim>\<open>solution.images\<close> mapping,
  \<^verbatim>\<open>update_image_section_sol_file\<close> writes the manifest, and in the images section
  written every injected key that is also a key of the configured third-party images has
  its injected value, every configured third-party key that is not injected has its
  configured value, and every other key is as the template and the CORTX image keys left
  it: an injected key outside the configured third-party images is not written.
\<close>

theorem image_section_update:
  assumes sol: "py_getitem conf ''solution'' = Inr sol"
    and img: "py_getitem sol ''images'' = Inr (YMap img)"
    and dtp: "distinct (map fst tp)"
    and dcfg: "distinct (map fst (third_party_images cfg))"
  shows "\<exists>conf' sol' img'.
           update_image_section_sol_file cfg conf cortx_image tp = Inr conf' \<and>
           py_getitem conf' ''solution'' = Inr sol' \<and>
           py_getitem sol' ''images'' = Inr (YMap img') \<and>
           (\<forall>k v. (k, v) \<in> set tp \<and> k \<in> fst ` set (third_party_images cfg) \<longrightarrow>
                    map_of img' k = Some (YStr v)) \<and>
           (\<forall>k v. (k, v) \<in> set (third_party_images cfg) \<and> k \<notin> fst ` set tp \<longrightarrow>
                    map_of img' k = Some (YStr v)) \<and>
           (\<forall>k. k \<notin> fst ` set (third_party_images cfg) \<longrightarrow>
                    map_of img' k =
                      map_of (dict_update img
                                (dict_update []
                                   (map (\<lambda>k. (k, YStr cortx_image)) (cortx_images_key cfg)))) k)"
proof -
  let ?cortx_im = "dict_update [] (map (\<lambda>k. (k, YStr cortx_image)) (cortx_images_key cfg))"
  let ?img0 = "dict_update img ?cortx_im"
  let ?D = "third_party_images cfg"
  have d0: "dict_update [] ?D = ?D"
    using dict_update_distinct [of "[]" ?D] dcfg by simp
  from sol obtain cm where cm: "conf = YMap cm" by (rule py_getitem_InrE)
  from img obtain sm where sm: "sol = YMap sm" by (rule py_getitem_InrE)
  have "\<forall>k \<in> fst ` set tp. k \<in> fst ` set ?D \<longrightarrow> k \<in> fst ` set ?D" by simp
  from image_loop_result [OF dtp this, of ?img0] obtain img1 dflt where
    r: "image_loop cfg tp ?img0 ?D = Inr (img1, dflt)"
       "\<forall>k. map_of img1 k =
              (if k \<in> fst ` set tp \<and> k \<in> fst ` set ?D
               then map_option YStr (map_of tp k) else map_of ?img0 k)"
       "\<forall>k. map_of dflt k =
              (if k \<in> fst ` set tp \<and> k \<in> fst ` set ?D then None else map_of ?D k)"
    by blast
  let ?dflt = "map (\<lambda>(k, v). (k, YStr v)) dflt"
  let ?img' = "dict_update img1 ?dflt"
  let ?sol' = "YMap (AList.update ''images'' (YMap ?img') sm)"
  let ?conf' = "YMap (AList.update ''solution'' ?sol' cm)"
  have run: "update_image_section_sol_file cfg conf cortx_image tp = Inr ?conf'"
    using sol img r(1) cm sm d0
    by (simp add: update_image_section_sol_file_def Let_def as_dict_def)
  have keys_dflt: "fst ` set ?dflt = fst ` set dflt" by force
  have dflt_keys: "k \<in> fst ` set dflt \<longleftrightarrow> k \<in> fst ` set ?D \<and> k \<notin> fst ` set tp" for k
  proof -
    have a: "k \<in> fst ` set dflt \<longleftrightarrow> map_of dflt k \<noteq> None"
      by (simp add: map_of_eq_None_iff)
    have b: "k \<in> fst ` set ?D \<longleftrightarrow> map_of ?D k \<noteq> None"
      by (simp add: map_of_eq_None_iff)
    from spec [OF r(3), of k] show ?thesis unfolding a b by (cases "k \<in> fst ` set tp") auto
  qed
  have injected: "map_of ?img' k = Some (YStr v)"
    if "(k, v) \<in> set tp" "k \<in> fst ` set ?D" for k v
  proof -
    from that have kt: "k \<in> fst ` set tp" by force
    with dflt_keys have "k \<notin> fst ` set dflt" by blast
    then have "k \<notin> fst ` set ?dflt" unfolding keys_dflt .
    then have "map_of ?img' k = map_of img1 k" by (rule map_of_dict_update_notin)
    also have "\<dots> = map_option YStr (map_of tp k)" using r(2) kt that by simp
    also have "map_of tp k = Some v" using dtp that by simp
    finally show ?thesis by simp
  qed
  have dist_dflt: "distinct (map fst dflt)"
  proof -
    have "distinct (map fst dflt')" if "image_loop cfg tp' img0 dflt0 = Inr (img', dflt')"
      "distinct (map fst dflt0)" for tp' img0 dflt0 img' dflt'
      using that
    proof (induction tp' arbitrary: img0 dflt0)
      case Nil
      then show ?case by simp
    next
      case (Cons kv tp')
      obtain key val where kv: "kv = (key, val)" by (cases kv)
      show ?case
      proof (cases "key \<in> fst ` set ?D")
        case False
        with Cons kv show ?thesis by auto
      next
        case True
        with Cons.prems kv have
          "image_loop cfg tp' (AList.update key (YStr val) img0) (AList.delete key dflt0) = Inr (img', dflt')"
          by (auto simp: dict_pop_def split: if_splits)
        from Cons.IH [OF this] Cons.prems(2) show ?thesis by (simp add: distinct_delete)
      qed
    qed
    from this [OF r(1) dcfg] show ?thesis .
  qed
  have defaults: "map_of ?img' k = Some (YStr v)"
    if "(k, v) \<in> set ?D" "k \<notin> fst ` set tp" for k v
  proof -
    from that dcfg have "map_of ?D k = Some v" by simp
    with r(3) that have "map_of dflt k = Some v" by simp
    then have "(k, v) \<in> set dflt" by (rule map_of_SomeD)
    then have "(k, YStr v) \<in> set ?dflt" by force
    moreover have "distinct (map fst ?dflt)"
      using dist_dflt by (simp add: case_prod_beta comp_def)
    ultimately show ?thesis by (rule map_of_dict_update_in [rotated])
  qed
  have others: "map_of ?img' k = map_of ?img0 k" if "k \<notin> fst ` set ?D" for k
  proof -
    from that dflt_keys have "k \<notin> fst ` set dflt" by blast
    then have "k \<notin> fst ` set ?dflt" unfolding keys_dflt .
    then have "map_of ?img' k = map_of img1 k" by (rule map_of_dict_update_notin)
    with r(2) that show ?thesis by simp
  qed
  have "py_getitem ?conf' ''solution'' = Inr ?sol'" by simp
  moreover have "py_getitem ?sol' ''images'' = Inr (YMap ?img')" by simp
  ultimately show ?thesis
    using run injected defaults others
    by (intro exI [of _ ?conf'] exI [of _ ?sol'] exI [of _ ?img']) blast
qed

theorem image_section_update_witness:
  "\<exists>conf' sol' img'.
     update_image_section_sol_file example_cfg example_conf ''cortx:1''
       [(''kafka'', ''3.1.0''), (''foo'', ''bar'')] = Inr conf' \<and>
     py_getitem conf' ''solution'' = Inr sol' \<and>
     py_getitem sol' ''images'' = Inr (YMap img') \<and>
     map_of img' ''kafka'' = Some (YStr ''3.1.0'') \<and>
     map_of img' ''consul'' = Some (YStr ''consul:1.10.0'') \<and>
     map_of img' ''foo'' = None"
proof -
  have sol: "py_getitem example_conf ''solution'' =
      Inr (YMap [(''secrets'', YMap [(''content'', YMap [])]),
             (''images'', YMap [(''cortxdata'', YStr ''cortx:old'')]),
             (''common'',
               YMap [(''s3'', YMap []),
                     (''glusterfs'', YMap [(''size'', YStr ''5Gi'')]),
                     (''storage_sets'',
                       YMap [(''durability'', YMap [(''sns'', YStr ''4+2+0'')])])]),
             (''storage'', YMap [(''cvg1'', YNull)]),
             (''nodes'', YMap [(''node1'', YMap [(''name'', YStr ''old'')])])])"
    by (simp add: example_conf_def py_getitem_def)
  from image_section_update [OF sol, of "[(''cortxdata'', YStr ''cortx:old'')]"
      "[(''kafka'', ''3.1.0''), (''foo'', ''bar'')]" example_cfg "''cortx:1''"]
  obtain conf' sol' img' where
    r: "update_image_section_sol_file example_cfg example_conf ''cortx:1''
          [(''kafka'', ''3.1.0''), (''foo'', ''bar'')] = Inr conf'"
       "py_getitem conf' ''solution'' = Inr sol'"
       "py_getitem sol' ''images'' = Inr (YMap img')"
       "\<forall>k v. (k, v) \<in> set [(''kafka'', ''3.1.0''), (''foo'', ''bar'')] \<and>
               k \<in> fst ` set (third_party_images example_cfg) \<longrightarrow> map_of img' k = Some (YStr v)"
       "\<forall>k v. (k, v) \<in> set (third_party_images example_cfg) \<and>
               k \<notin> fst ` set [(''kafka'', ''3.1.0''), (''foo'', ''bar'')] \<longrightarrow>
               map_of img' k = Some (YStr v)"
       "\<forall>k. k \<notin> fst ` set (third_party_images example_cfg) \<longrightarrow>
               map_of img' k =
                 map_of (dict_update [(''cortxdata'', YStr ''cortx:old'')]
                           (dict_update []
                              (map (\<lambda>k. (k, YStr ''cortx:1'')) (cortx_images_key example_cfg)))) k"
    by (auto simp: py_getitem_def example_cfg_def)
  from r(4) have "map_of img' ''kafka'' = Some (YStr ''3.1.0'')"
    by (simp add: example_cfg_def)
  moreover from r(5) have "map_of img' ''consul'' = Some (YStr ''consul:1.10.0'')"
    by (simp add: example_cfg_def)
  moreover from r(6) have "map_of img' ''foo'' = None"
    by (simp add: example_cfg_def dict_update_def)
  ultimately show ?thesis using r(1-3) by blast
qed

theorem image_section_injected_key_counterexample:
  "update_image_section_sol_file example_cfg example_conf ''cortx:1'' [(''foo'', ''bar'')] =
     Inr (YMap [(''solution'',
       YMap [(''secrets'', YMap [(''content'', YMap [])]),
             (''images'',
               YMap [(''cortxdata'', YStr ''cortx:1''),
                     (''consul'', YStr ''consul:1.10.0''),
                     (''kafka'', YStr ''3.0.0'')]),
             (''common'',
               YMap [(''s3'', YMap []),
                     (''glusterfs'', YMap [(''size'', YStr ''5Gi'')]),
                     (''storage_sets'',
                       YMap [(''durability'', YMap [(''sns'', YStr ''4+2+0'')])])]),
             (''storage'', YMap [(''cvg1'', YNull)]),
             (''nodes'', YMap [(''node1'', YMap [(''name'', YStr ''old'')])])])])"
  by (simp add: update_image_section_sol_file_def example_cfg_def example_conf_def
        py_getitem_def as_dict_def dict_update_def dict_pop_def)

section \<open>Disk partitioning\<close>

lemma concat_chunks:
  "concat (map (\<lambda>k. take m (drop (k * m) xs)) [0 ..< j]) = take (j * m) xs"
proof (induction j)
  case 0
  then show ?case by simp
next
  case (Suc j)
  have "Suc j * m = j * m + m" by simp
  then have "take (Suc j * m) xs = take (j * m) xs @ take m (drop (j * m) xs)"
    by (simp only: take_add)
  with Suc show ?case by simp
qed

lemma trunc_div_exact: "0 < g \<Longrightarrow> 0 < d \<Longrightarrow> trunc_div (d * g) g = d"
  by (simp add: trunc_div_def sgn_mult abs_mult)

lemma py_range0_exact:
  assumes "0 < d" "0 \<le> g"
  shows "py_range0 (d * g) d = map (\<lambda>k. int k * d) [0 ..< nat g]"
proof -
  have "d * g + d - 1 = g * d + (d - 1)" by (simp add: algebra_simps)
  also have "\<dots> div d = g" using assms by simp
  finally have "(d * g + d - 1) div d = g" .
  with assms show ?thesis by (simp add: py_range0_def)
qed

lemma slice_bound_nat [simp]: "slice_bound (int n) (int a) = min n a"
  by (simp add: slice_bound_def min_def)

lemma py_slice_nat:
  "py_slice xs (int a) (int a + int m) = take m (drop a xs)"
proof -
  have "take (min (length xs) (a + m) - min (length xs) a) (drop (min (length xs) a) xs)
          = take m (drop a xs)"
  proof (cases "a \<le> length xs")
    case True
    then show ?thesis by (cases "a + m \<le> length xs") (simp_all add: min_def)
  next
    case False
    then show ?thesis by (simp add: min_def)
  qed
  moreover have "int a + int m = int (a + m)" by simp
  ultimately show ?thesis
    unfolding py_slice_def Let_def by (simp only: slice_bound_nat)
qed

lemma py_slice_from_nat: "py_slice_from xs (int a) = drop a xs"
  by (cases "a \<le> length xs") (simp_all add: py_slice_from_def min_def)

lemma split_on_nonempty: "split_on c s \<noteq> []"
  by (induction s) (auto split: list.splits)


lemma exact_slices:
  fixes devs :: "'a list"
  assumes n: "length devs = D * G + G + 1"
  shows "map (\<lambda>i. py_slice (drop (G + 1) devs) i (i + int D)) (map (\<lambda>k. int k * int D) [0 ..< G])
           = map (\<lambda>k. take D (drop (G + 1 + k * D) devs)) [0 ..< G]"
proof -
  have "py_slice (drop (G + 1) devs) (int k * int D) (int k * int D + int D)
          = take D (drop (G + 1 + k * D) devs)" for k
  proof -
    have "int k * int D = int (k * D)" by simp
    then have "py_slice (drop (G + 1) devs) (int k * int D) (int k * int D + int D)
                 = take D (drop (k * D) (drop (G + 1) devs))"
      by (simp only: py_slice_nat)
    then show ?thesis by (simp add: add.commute)
  qed
  then show ?thesis by (simp add: comp_def)
qed

lemma partition_node_cases:
  assumes "device_list_of w = Inr devs"
    and "effective_d kw st devs = d"
    and "py_slice_from devs (cvg_count kw + 1) = f"
    and "py_slice devs 1 (cvg_count kw + 1) = meta"
    and "int (length devs) - cvg_count kw - 1 = new_len"
  shows "partition_node kw node_list st w =
     (if st_data_disk_per_cvg st = 0 \<and> cvg_count kw = 0 then Raised ZeroDivisionError
      else if \<not> skip_disk_count_check kw \<and>
              sns_spare kw + sns_data kw + sns_parity kw > d * cvg_count kw * node_list
      then Failed msg_nks
      else if new_len < d * cvg_count kw then Failed msg_more
      else if d * cvg_count kw < new_len then
        (case slice_loop (cvg_count kw) d d new_len f (st_data_devices st @ [py_slice f 0 d]) of
           None \<Rightarrow> Diverged
         | Some dd \<Rightarrow>
             Done \<lparr>st_data_disk_per_cvg = d, st_data_devices = dd,
                   st_metadata_devices = meta,
                   st_sys_disk_pernode =
                     AList.update (hostname w) (hd devs) (st_sys_disk_pernode st)\<rparr>)
      else if d = 0 then Raised ValueError
      else
        Done \<lparr>st_data_disk_per_cvg = d,
              st_data_devices = map (\<lambda>i. py_slice f i (i + d)) (py_range0 (int (length f)) d),
              st_metadata_devices = meta,
              st_sys_disk_pernode =
                AList.update (hostname w) (hd devs) (st_sys_disk_pernode st)\<rparr>)"
  using assms by (auto simp: partition_node_def effective_d_def Let_def)

lemma slice_loop_prefix:
  assumes "slice_loop count ce d nl f acc = Some r"
  shows "\<exists>new. r = acc @ new"
proof (rule slice_loop.raw_induct
    [where P = "\<lambda>count ce d nl f acc r. \<exists>new. r = acc @ new", OF _ assms], goal_cases)
  case (1 sl count ce d nl f acc r)
  show ?case
  proof (cases "count \<noteq> 0 \<and> \<not> nl < ce + d")
    case True
    with 1(2) have "sl (count - 1) (ce + d) d nl f (acc @ [py_slice f ce (ce + d)]) = Some r"
      by (simp add: Let_def)
    from 1(1) [OF this] show ?thesis by auto
  next
    case False
    with 1(2) have "r = acc" by (auto simp: Let_def split: if_splits)
    then show ?thesis by simp
  qed
qed

lemma slice_loop_terminates:
  "\<exists>r. slice_loop (int n) ce d nl f acc = Some r"
proof (induction n arbitrary: ce acc)
  case 0
  show ?case by (subst slice_loop.simps) simp
next
  case (Suc n)
  have "int (Suc n) - 1 = int n" by simp
  with Suc [of "ce + d" "acc @ [py_slice f ce (ce + d)]"] show ?case
    by (subst slice_loop.simps) (simp add: Let_def)
qed


text \<open>
  C1, as the code has it.  \<^verbatim>\<open>data_disk_per_cvg\<close> is a local of \<^verbatim>\<open>update_sol_yaml\<close>
  that lives across the iterations of the loop over the workers: it is derived from the
  device list only in an iteration that finds it 0, and the value an iteration ends with
  is the one the next iteration finds.  Let \<open>d\<close> be the value in effect in the iteration
  for a worker whose device list has \<open>n\<close> devices: the one the iteration finds or, when
  that is 0, the quotient of \<open>n - g - 1\<close> by \<open>g\<close> for this worker's list.  With \<open>g > 0\<close>
  volume groups, \<open>d > 0\<close>, \<open>d * g\<close> exactly \<open>n - g - 1\<close>, and the N+K+S check passed or
  skipped, the iteration succeeds and leaves \<open>d\<close> as the value for the next worker: the
  data slices, which replace the ones of the workers before, are the \<open>g\<close> consecutive
  runs of \<open>d\<close> devices that follow device \<open>g\<close>, the metadata devices are devices
  \<open>1 .. g\<close>, and the device list is the system disk, then the metadata devices, then the
  slices in order; so on a list without repetition the slices are pairwise disjoint and
  hold neither the system disk nor a metadata device.
\<close>

theorem partition_exact_division:
  assumes devs: "device_list_of w = Inr devs"
    and g: "0 < cvg_count kw"
    and eff: "effective_d kw st devs = d"
    and dpos: "0 < d"
    and exact: "d * cvg_count kw = int (length devs) - cvg_count kw - 1"
    and chk: "skip_disk_count_check kw \<or>
              sns_spare kw + sns_data kw + sns_parity kw \<le> d * cvg_count kw * node_list"
  shows "\<exists>st'. partition_node kw node_list st w = Done st' \<and>
           st_data_disk_per_cvg st' = d \<and>
           st_data_devices st' =
             map (\<lambda>k. take (nat d) (drop (nat (cvg_count kw) + 1 + k * nat d) devs))
               [0 ..< nat (cvg_count kw)] \<and>
           length (st_data_devices st') = nat (cvg_count kw) \<and>
           (\<forall>s \<in> set (st_data_devices st'). length s = nat d) \<and>
           st_metadata_devices st' = take (nat (cvg_count kw)) (drop 1 devs) \<and>
           length (st_metadata_devices st') = nat (cvg_count kw) \<and>
           devs = hd devs # st_metadata_devices st' @ concat (st_data_devices st') \<and>
           (distinct devs \<longrightarrow>
              distinct (concat (st_data_devices st')) \<and>
              hd devs \<notin> set (concat (st_data_devices st')) \<and>
              set (st_metadata_devices st') \<inter> set (concat (st_data_devices st')) = {})"
proof -
  define G where "G = nat (cvg_count kw)"
  define D where "D = nat d"
  have gG: "cvg_count kw = int G" and dD: "d = int D" and G0: "0 < G" and D0: "0 < D"
    using g dpos by (simp_all add: G_def D_def)
  have "int (length devs) = int (D * G + G + 1)"
    using exact by (simp add: gG dD algebra_simps)
  then have n: "length devs = D * G + G + 1" by (simp only: of_nat_eq_iff)
  define f where "f = drop (G + 1) devs"
  define meta where "meta = take G (drop 1 devs)"
  define dd where "dd = map (\<lambda>k. take D (drop (G + 1 + k * D) devs)) [0 ..< G]"
  have lf: "length f = D * G" using n by (simp add: f_def)
  have f: "py_slice_from devs (cvg_count kw + 1) = f"
  proof -
    have "cvg_count kw + 1 = int (G + 1)" by (simp add: gG)
    then show ?thesis unfolding f_def by (simp only: py_slice_from_nat)
  qed
  have meta: "py_slice devs 1 (cvg_count kw + 1) = meta"
    using py_slice_nat [of devs 1 G] by (simp add: gG add.commute meta_def)
  have rng: "py_range0 (int (length f)) (int D) = map (\<lambda>k. int k * int D) [0 ..< G]"
  proof -
    have "int (length f) = d * int G" using lf by (simp add: dD)
    with py_range0_exact [of d "int G"] dpos show ?thesis by (simp add: dD)
  qed
  have slices0: "map (\<lambda>i. py_slice f i (i + int D)) (map (\<lambda>k. int k * int D) [0 ..< G]) = dd"
    unfolding f_def dd_def by (rule exact_slices [OF n])
  have slices: "map (\<lambda>i. py_slice f i (i + d)) (py_range0 (int (length f)) d) = dd"
    unfolding dD rng by (rule slices0)
  have new_len: "int (length devs) - cvg_count kw - 1 = d * cvg_count kw"
    using exact by simp
  define st' where "st' = \<lparr>st_data_disk_per_cvg = d, st_data_devices = dd,
                st_metadata_devices = meta,
                st_sys_disk_pernode =
                  AList.update (hostname w) (hd devs) (st_sys_disk_pernode st)\<rparr>"
  have run: "partition_node kw node_list st w = Done st'"
    unfolding partition_node_cases [OF devs eff f meta new_len] slices st'_def
    using g dpos chk by auto
  have cc: "concat dd = f"
  proof -
    have "dd = map (\<lambda>k. take D (drop (k * D) f)) [0 ..< G]"
      by (simp add: add.commute dd_def f_def)
    then have "concat dd = take (G * D) f" by (simp only: concat_chunks)
    with lf show ?thesis by (simp add: mult.commute)
  qed
  have len_each: "\<forall>s \<in> set dd. length s = D"
  proof
    fix s assume "s \<in> set dd"
    then obtain k where k: "k < G" and s: "s = take D (drop (G + 1 + k * D) devs)"
      by (auto simp: dd_def)
    from k have "Suc k \<le> G" by simp
    then have "Suc k * D \<le> G * D" by (rule mult_le_mono1)
    then have "D + (G + 1 + k * D) \<le> length devs" using n by (simp add: mult.commute)
    then show "length s = D" unfolding s by simp
  qed
  have ne: "devs \<noteq> []" using n by auto
  have decomp: "devs = hd devs # meta @ f"
  proof -
    have "devs = hd devs # tl devs" using ne by simp
    moreover have "tl devs = take G (tl devs) @ drop G (tl devs)" by simp
    moreover have "drop 1 devs = tl devs" by (simp add: drop_Suc)
    moreover have "drop (G + 1) devs = drop G (tl devs)" by (simp add: drop_Suc)
    ultimately show ?thesis unfolding meta_def f_def by simp
  qed
  have dist: "distinct f \<and> hd devs \<notin> set f \<and> set meta \<inter> set f = {}" if "distinct devs"
  proof -
    from that decomp have "distinct (hd devs # meta @ f)" by simp
    then show ?thesis by auto
  qed
  have lm: "length meta = G" using n by (simp add: meta_def)
  have ldd: "length dd = G" by (simp add: dd_def)
  have "st_data_disk_per_cvg st' = d" "st_data_devices st' = dd" "st_metadata_devices st' = meta"
    by (simp_all add: st'_def)
  with run cc len_each decomp dist lm ldd
  have "partition_node kw node_list st w = Done st' \<and>
           st_data_disk_per_cvg st' = d \<and>
           st_data_devices st' = dd \<and>
           length (st_data_devices st') = G \<and>
           (\<forall>s \<in> set (st_data_devices st'). length s = D) \<and>
           st_metadata_devices st' = meta \<and>
           length (st_metadata_devices st') = G \<and>
           devs = hd devs # st_metadata_devices st' @ concat (st_data_devices st') \<and>
           (distinct devs \<longrightarrow>
              distinct (concat (st_data_devices st')) \<and>
              hd devs \<notin> set (concat (st_data_devices st')) \<and>
              set (st_metadata_devices st') \<inter> set (concat (st_data_devices st')) = {})"
    by simp
  then show ?thesis unfolding dd_def meta_def G_def D_def by (rule exI)
qed

lemma example_devices:
  "device_list_of (example_node h ''a,b,c,d,e'') = Inr [''a'', ''b'', ''c'', ''d'', ''e'']"
  "device_list_of (example_node h ''a,b,c,d,e,f,g'') =
     Inr [''a'', ''b'', ''c'', ''d'', ''e'', ''f'', ''g'']"
  "device_list_of (example_node h ''a,b,c,d,e,f,g,h'') =
     Inr [''a'', ''b'', ''c'', ''d'', ''e'', ''f'', ''g'', ''h'']"
  "device_list_of (example_node h ''a,b,c,d,e,f,g,h,i'') =
     Inr [''a'', ''b'', ''c'', ''d'', ''e'', ''f'', ''g'', ''h'', ''i'']"
  by (simp_all add: device_list_of_def example_node_def Let_def)

lemma example_node_hostname [simp]: "hostname (example_node h line) = h"
  by (simp add: example_node_def)

lemma upt_2: "[0 ..< 2] = [0, Suc 0]"
  by (simp add: upt_rec)

lemma example_third_devices:
  "device_list_of (example_node h ''p,q,r,s,t,u,v,w,x'') =
     Inr [''p'', ''q'', ''r'', ''s'', ''t'', ''u'', ''v'', ''w'', ''x'']"
  by (simp add: device_list_of_def example_node_def Let_def)

text \<open>A worker with seven devices: with two data disks per group given; with 0 given,
  so that the 2 is derived; and as a later worker of the loop, when the 2 and a slice
  come from the workers before.\<close>

theorem partition_exact_division_witness:
  "(\<exists>st'. partition_node example_kwargs 1 (init_state example_kwargs)
             (example_node ''w1'' ''a,b,c,d,e,f,g'') = Done st' \<and>
          st_data_devices st' = [[''d'', ''e''], [''f'', ''g'']] \<and>
          st_metadata_devices st' = [''b'', ''c''] \<and> st_data_disk_per_cvg st' = 2)
   \<and> (\<exists>st'. partition_node (example_kwargs\<lparr>data_disk_per_cvg := 0\<rparr>) 1
             (init_state (example_kwargs\<lparr>data_disk_per_cvg := 0\<rparr>))
             (example_node ''w1'' ''a,b,c,d,e,f,g'') = Done st' \<and>
          st_data_devices st' = [[''d'', ''e''], [''f'', ''g'']] \<and>
          st_metadata_devices st' = [''b'', ''c''] \<and> st_data_disk_per_cvg st' = 2)
   \<and> (\<exists>st'. partition_node (example_kwargs\<lparr>data_disk_per_cvg := 0\<rparr>) 2
             \<lparr>st_data_disk_per_cvg = 2, st_data_devices = [[''x'', ''y'']],
              st_metadata_devices = [''q'', ''r''], st_sys_disk_pernode = [(''w1'', ''p'')]\<rparr>
             (example_node ''w2'' ''a,b,c,d,e,f,g'') = Done st' \<and>
          st_data_devices st' = [[''d'', ''e''], [''f'', ''g'']] \<and>
          st_metadata_devices st' = [''b'', ''c''] \<and> st_data_disk_per_cvg st' = 2)"
proof -
  let ?w = "example_node ''w1'' ''a,b,c,d,e,f,g''"
  let ?w2 = "example_node ''w2'' ''a,b,c,d,e,f,g''"
  let ?kw0 = "example_kwargs\<lparr>data_disk_per_cvg := 0\<rparr>"
  let ?st2 = "\<lparr>st_data_disk_per_cvg = 2, st_data_devices = [[''x'', ''y'']],
              st_metadata_devices = [''q'', ''r''], st_sys_disk_pernode = [(''w1'', ''p'')]\<rparr>"
  let ?devs = "[''a'', ''b'', ''c'', ''d'', ''e'', ''f'', ''g'']"
  have vals: "map (\<lambda>k. take (nat 2) (drop (nat 2 + 1 + k * nat 2) ?devs)) [0 ..< nat 2]
                = [[''d'', ''e''], [''f'', ''g'']]"
    "take (nat 2) (drop 1 ?devs) = [''b'', ''c'']"
    by (simp_all add: upt_2)
  have g: "cvg_count example_kwargs = 2" "cvg_count ?kw0 = 2"
    by (simp_all add: example_kwargs_def)
  have e1: "effective_d example_kwargs (init_state example_kwargs) ?devs = 2"
    and e0: "effective_d ?kw0 (init_state ?kw0) ?devs = 2"
    and e2: "effective_d ?kw0 ?st2 ?devs = 2"
    by (simp_all add: effective_d_def example_kwargs_def init_state_def py_slice_from_def
          slice_bound_def trunc_div_def)
  have c: "(0::int) < 2" "(2::int) * 2 = int (length ?devs) - 2 - 1" by simp_all
  have k: "skip_disk_count_check example_kwargs \<or>
      sns_spare example_kwargs + sns_data example_kwargs + sns_parity example_kwargs
        \<le> 2 * cvg_count example_kwargs * n" if "1 \<le> n" for n
    using that by (simp add: example_kwargs_def)
  have k0: "skip_disk_count_check ?kw0 \<or>
      sns_spare ?kw0 + sns_data ?kw0 + sns_parity ?kw0 \<le> 2 * cvg_count ?kw0 * n" if "1 \<le> n" for n
    using that by (simp add: example_kwargs_def)
  from partition_exact_division [where w = ?w and devs = ?devs and kw = example_kwargs
      and st = "init_state example_kwargs" and d = 2 and node_list = 1,
      OF example_devices(2) _ e1 c(1) _ k] c(2)
  obtain st1 where st1: "partition_node example_kwargs 1 (init_state example_kwargs) ?w = Done st1"
    "st_data_disk_per_cvg st1 = 2"
    "st_data_devices st1 =
       map (\<lambda>k. take (nat 2) (drop (nat (cvg_count example_kwargs) + 1 + k * nat 2) ?devs))
         [0 ..< nat (cvg_count example_kwargs)]"
    "st_metadata_devices st1 = take (nat (cvg_count example_kwargs)) (drop 1 ?devs)"
    unfolding g by auto
  from partition_exact_division [where w = ?w and devs = ?devs and kw = ?kw0
      and st = "init_state ?kw0" and d = 2 and node_list = 1,
      OF example_devices(2) _ e0 c(1) _ k0] c(2)
  obtain st0 where st0: "partition_node ?kw0 1 (init_state ?kw0) ?w = Done st0"
    "st_data_disk_per_cvg st0 = 2"
    "st_data_devices st0 =
       map (\<lambda>k. take (nat 2) (drop (nat (cvg_count ?kw0) + 1 + k * nat 2) ?devs))
         [0 ..< nat (cvg_count ?kw0)]"
    "st_metadata_devices st0 = take (nat (cvg_count ?kw0)) (drop 1 ?devs)"
    unfolding g by auto
  from partition_exact_division [where w = ?w2 and devs = ?devs and kw = ?kw0
      and st = ?st2 and d = 2 and node_list = 2,
      OF example_devices(2) _ e2 c(1) _ k0] c(2)
  obtain st2 where st2: "partition_node ?kw0 2 ?st2 ?w2 = Done st2"
    "st_data_disk_per_cvg st2 = 2"
    "st_data_devices st2 =
       map (\<lambda>k. take (nat 2) (drop (nat (cvg_count ?kw0) + 1 + k * nat 2) ?devs))
         [0 ..< nat (cvg_count ?kw0)]"
    "st_metadata_devices st2 = take (nat (cvg_count ?kw0)) (drop 1 ?devs)"
    unfolding g by auto
  from st1 st0 st2 show ?thesis unfolding g vals by blast
qed

lemma example_partition_effective [simp]:
  "effective_d example_kwargs (init_state example_kwargs) devs = 2"
  by (simp add: effective_d_def example_kwargs_def init_state_def)

text \<open>Two data disks per group and two groups on a worker with five devices, where 2
  divides the 2 devices left, and on one with nine, where 2 divides the 6 left; and 0
  given for a worker with seven devices followed by one with nine, where the second
  worker is cut with the 2 derived from the first, though 6 is twice 3.\<close>

theorem partition_divides_counterexample:
  "partition_node example_kwargs 1 (init_state example_kwargs)
     (example_node ''w1'' ''a,b,c,d,e'') = Failed msg_more
   \<and> partition_node example_kwargs 1 (init_state example_kwargs)
     (example_node ''w1'' ''a,b,c,d,e,f,g,h,i'') =
       Done \<lparr>st_data_disk_per_cvg = 2,
             st_data_devices = [[''d'', ''e''], [''f'', ''g''], [''h'', ''i'']],
             st_metadata_devices = [''b'', ''c''],
             st_sys_disk_pernode = [(''w1'', ''a'')]\<rparr>
   \<and> partition_loop (example_kwargs\<lparr>data_disk_per_cvg := 0\<rparr>) 2
       (init_state (example_kwargs\<lparr>data_disk_per_cvg := 0\<rparr>))
       [example_node ''w1'' ''a,b,c,d,e,f,g'', example_node ''w2'' ''p,q,r,s,t,u,v,w,x''] =
       Done \<lparr>st_data_disk_per_cvg = 2,
             st_data_devices = [[''d'', ''e''], [''f'', ''g''],
                                [''s'', ''t''], [''u'', ''v''], [''w'', ''x'']],
             st_metadata_devices = [''q'', ''r''],
             st_sys_disk_pernode = [(''w1'', ''a''), (''w2'', ''p'')]\<rparr>"
proof (intro conjI)
  show "partition_node example_kwargs 1 (init_state example_kwargs)
     (example_node ''w1'' ''a,b,c,d,e'') = Failed msg_more"
    by (subst partition_node_cases [OF example_devices(1) example_partition_effective refl refl refl])
      (simp add: example_kwargs_def init_state_def)
  show "partition_node example_kwargs 1 (init_state example_kwargs)
     (example_node ''w1'' ''a,b,c,d,e,f,g,h,i'') =
       Done \<lparr>st_data_disk_per_cvg = 2,
             st_data_devices = [[''d'', ''e''], [''f'', ''g''], [''h'', ''i'']],
             st_metadata_devices = [''b'', ''c''],
             st_sys_disk_pernode = [(''w1'', ''a'')]\<rparr>"
    by (subst partition_node_cases [OF example_devices(4) example_partition_effective refl refl refl])
      (simp add: example_kwargs_def init_state_def slice_loop.simps py_slice_def
         py_slice_from_def slice_bound_def)
  show "partition_loop (example_kwargs\<lparr>data_disk_per_cvg := 0\<rparr>) 2
       (init_state (example_kwargs\<lparr>data_disk_per_cvg := 0\<rparr>))
       [example_node ''w1'' ''a,b,c,d,e,f,g'', example_node ''w2'' ''p,q,r,s,t,u,v,w,x''] =
       Done \<lparr>st_data_disk_per_cvg = 2,
             st_data_devices = [[''d'', ''e''], [''f'', ''g''],
                                [''s'', ''t''], [''u'', ''v''], [''w'', ''x'']],
             st_metadata_devices = [''q'', ''r''],
             st_sys_disk_pernode = [(''w1'', ''a''), (''w2'', ''p'')]\<rparr>"
    by code_simp
qed

lemma msgs_differ: "msg_nks \<noteq> msg_more"
  by (simp add: msg_nks_def msg_more_def)

lemma partition_node_outcome:
  assumes "device_list_of w = Inr devs"
  shows "partition_node kw node_list st w =
     (if st_data_disk_per_cvg st = 0 \<and> cvg_count kw = 0 then Raised ZeroDivisionError
      else if \<not> skip_disk_count_check kw \<and>
              sns_spare kw + sns_data kw + sns_parity kw
                > effective_d kw st devs * cvg_count kw * node_list
      then Failed msg_nks
      else if int (length devs) - cvg_count kw - 1 < effective_d kw st devs * cvg_count kw
      then Failed msg_more
      else partition_node kw node_list st w)"
  by (simp add: partition_node_cases [OF assms refl refl refl refl])

lemma partition_node_Failed:
  assumes "device_list_of w = Inr devs" and "partition_node kw node_list st w = Failed m"
  shows "(m = msg_nks \<and> \<not> skip_disk_count_check kw \<and>
            sns_spare kw + sns_data kw + sns_parity kw
              > effective_d kw st devs * cvg_count kw * node_list)
       \<or> (m = msg_more \<and>
            int (length devs) - cvg_count kw - 1 < effective_d kw st devs * cvg_count kw)"
  using assms(2) unfolding partition_node_cases [OF assms(1) refl refl refl refl]
  by (auto split: if_splits option.splits)

lemma update_sol_yaml_first_Failed:
  assumes "partition_node kw (int (length (w # rest))) (init_state kw) w = Failed m"
  shows "update_sol_yaml cfg dec (w # rest) conf ci kw = (conf, Failed m)"
  using assms by (simp add: update_sol_yaml_def)

lemma update_sol_yaml_Failed_unchanged:
  assumes "update_sol_yaml cfg dec ws conf ci kw = (c, Failed m)"
  shows "c = conf"
  using assms unfolding update_sol_yaml_def
  by (auto split: step.splits sum.splits)

text \<open>
  C2, as the code has it.  The check compares the SNS sum only, data + parity + spare of
  the primary domain, with \<open>d * g * node_count\<close>, and it runs inside the loop over the
  workers.  Unless the skip flag is set, an iteration whose SNS sum strictly exceeds
  \<open>d * g * node_count\<close> returns the N+K+S failure, and when that happens for the first
  worker \<^verbatim>\<open>update_sol_yaml\<close> returns that failure with the manifest as it was.  An
  iteration whose SNS sum is at most \<open>d * g * node_count\<close>, or with the skip flag set,
  never returns the N+K+S failure.  No failure returned by \<^verbatim>\<open>update_sol_yaml\<close> changes
  the manifest.  (\<open>d\<close> is the effective value, derived when 0 is given; with \<open>d = 0\<close>
  given and \<open>g = 0\<close> the derivation divides by zero instead.)
\<close>

theorem nks_check:
  "(device_list_of w = Inr devs \<and> \<not> skip_disk_count_check kw \<and>
      \<not> (st_data_disk_per_cvg st = 0 \<and> cvg_count kw = 0) \<and>
      effective_d kw st devs * cvg_count kw * node_list
        < sns_spare kw + sns_data kw + sns_parity kw \<longrightarrow>
      partition_node kw node_list st w = Failed msg_nks)
   \<and> (device_list_of w = Inr devs \<and> \<not> skip_disk_count_check kw \<and>
      \<not> (data_disk_per_cvg kw = 0 \<and> cvg_count kw = 0) \<and>
      effective_d kw (init_state kw) devs * cvg_count kw * int (length (w # rest))
        < sns_spare kw + sns_data kw + sns_parity kw \<longrightarrow>
      update_sol_yaml cfg dec (w # rest) conf ci kw = (conf, Failed msg_nks))
   \<and> (device_list_of w = Inr devs \<and>
      (skip_disk_count_check kw \<or>
       sns_spare kw + sns_data kw + sns_parity kw
         \<le> effective_d kw st devs * cvg_count kw * node_list) \<longrightarrow>
      partition_node kw node_list st w \<noteq> Failed msg_nks)
   \<and> (update_sol_yaml cfg dec ws conf ci kw = (c, Failed m) \<longrightarrow> c = conf)"
proof (intro conjI impI)
  assume "device_list_of w = Inr devs \<and> \<not> skip_disk_count_check kw \<and>
      \<not> (st_data_disk_per_cvg st = 0 \<and> cvg_count kw = 0) \<and>
      effective_d kw st devs * cvg_count kw * node_list
        < sns_spare kw + sns_data kw + sns_parity kw"
  then show "partition_node kw node_list st w = Failed msg_nks"
    by (subst partition_node_outcome [of w devs]) auto
next
  assume a: "device_list_of w = Inr devs \<and> \<not> skip_disk_count_check kw \<and>
      \<not> (data_disk_per_cvg kw = 0 \<and> cvg_count kw = 0) \<and>
      effective_d kw (init_state kw) devs * cvg_count kw * int (length (w # rest))
        < sns_spare kw + sns_data kw + sns_parity kw"
  then have "partition_node kw (int (length (w # rest))) (init_state kw) w = Failed msg_nks"
    by (subst partition_node_outcome [of w devs]) (auto simp: init_state_def)
  then show "update_sol_yaml cfg dec (w # rest) conf ci kw = (conf, Failed msg_nks)"
    by (rule update_sol_yaml_first_Failed)
next
  assume a: "device_list_of w = Inr devs \<and>
      (skip_disk_count_check kw \<or>
       sns_spare kw + sns_data kw + sns_parity kw
         \<le> effective_d kw st devs * cvg_count kw * node_list)"
  show "partition_node kw node_list st w \<noteq> Failed msg_nks"
  proof
    assume "partition_node kw node_list st w = Failed msg_nks"
    from partition_node_Failed [OF _ this, of devs] a msgs_differ show False by auto
  qed
next
  assume "update_sol_yaml cfg dec ws conf ci kw = (c, Failed m)"
  then show "c = conf" by (rule update_sol_yaml_Failed_unchanged)
qed

theorem nks_check_witness:
  "partition_node (example_kwargs\<lparr>sns_data := 5\<rparr>) 1 (init_state (example_kwargs\<lparr>sns_data := 5\<rparr>))
     (example_node ''w1'' ''a,b,c,d,e,f,g'') = Failed msg_nks
   \<and> update_sol_yaml example_cfg (\<lambda>s. s) [example_node ''w1'' ''a,b,c,d,e,f,g''] example_conf
       ''cortx:1'' (example_kwargs\<lparr>sns_data := 5\<rparr>) = (example_conf, Failed msg_nks)
   \<and> partition_node (example_kwargs\<lparr>sns_data := 4\<rparr>) 1 (init_state (example_kwargs\<lparr>sns_data := 4\<rparr>))
     (example_node ''w1'' ''a,b,c,d,e,f,g'') \<noteq> Failed msg_nks"
proof -
  let ?w = "example_node ''w1'' ''a,b,c,d,e,f,g''"
  let ?devs = "[''a'', ''b'', ''c'', ''d'', ''e'', ''f'', ''g'']"
  let ?k5 = "example_kwargs\<lparr>sns_data := 5\<rparr>"
  let ?k4 = "example_kwargs\<lparr>sns_data := 4\<rparr>"
  have e5: "effective_d ?k5 (init_state ?k5) ?devs = 2"
    and e4: "effective_d ?k4 (init_state ?k4) ?devs = 2"
    by (simp_all add: effective_d_def example_kwargs_def init_state_def)
  from nks_check [where w = ?w and devs = ?devs and kw = ?k5 and st = "init_state ?k5"
      and node_list = 1 and rest = "[]" and cfg = example_cfg and dec = "\<lambda>s. s"
      and conf = example_conf and ci = "''cortx:1''"
      and ws = "[?w]" and c = example_conf and m = msg_nks]
  have a: "partition_node ?k5 1 (init_state ?k5) ?w = Failed msg_nks"
    and b: "update_sol_yaml example_cfg (\<lambda>s. s) [?w] example_conf ''cortx:1'' ?k5
              = (example_conf, Failed msg_nks)"
    by (simp_all add: example_devices e5) (simp_all add: example_kwargs_def init_state_def)
  from nks_check [where w = ?w and devs = ?devs and kw = ?k4 and st = "init_state ?k4"
      and node_list = 1]
  have c: "partition_node ?k4 1 (init_state ?k4) ?w \<noteq> Failed msg_nks"
    by (simp add: example_devices e4) (simp add: example_kwargs_def)
  from a b c show ?thesis by blast
qed

theorem nks_check_dix_counterexample:
  "snd (update_sol_yaml example_cfg (\<lambda>s. s) [example_node ''w1'' ''a,b,c,d,e,f,g'']
          example_conf ''cortx:1'' (example_kwargs\<lparr>dix_data := 5\<rparr>)) = Done [(''w1'', ''a'')]
   \<and> py_path (fst (update_sol_yaml example_cfg (\<lambda>s. s) [example_node ''w1'' ''a,b,c,d,e,f,g'']
          example_conf ''cortx:1'' (example_kwargs\<lparr>dix_data := 5\<rparr>)))
        [''solution'', ''common'', ''storage_sets'', ''durability'', ''dix'']
      = Inr (YStr ''5+0+0'')"
  by code_simp








section \<open>The storage section written for several workers\<close>

lemma str_nat_inj: "str_nat m = str_nat n \<Longrightarrow> m = n"
  by (metis nat_of_digits_str_nat)

lemma cvg_key_inj:
  "''cvg'' @ str_int (int c + 1) = ''cvg'' @ str_int (int c' + 1) \<Longrightarrow> c = c'"
proof -
  assume "''cvg'' @ str_int (int c + 1) = ''cvg'' @ str_int (int c' + 1)"
  then have "str_nat (nat (int c + 1)) = str_nat (nat (int c' + 1))"
    by (simp add: str_int_def)
  then have "nat (int c + 1) = nat (int c' + 1)" by (rule str_nat_inj)
  then show "c = c'" by simp
qed

lemma cvg_loop_other:
  assumes "cvg_loop md dd ct d sm sd cs st = Inr st'"
    and "\<forall>c \<in> set cs. k \<noteq> ''cvg'' @ str_int (int c + 1)"
  shows "map_of st' k = map_of st k"
  using assms
proof (induction cs arbitrary: st)
  case Nil
  then show ?case by simp
next
  case (Cons c cs)
  from Cons.prems(1) obtain meta ds where
    rest: "cvg_loop md dd ct d sm sd cs
             (AList.update (''cvg'' @ str_int (int c + 1))
                (YMap [(''name'', YStr (''cvg-0'' @ str_int (int c + 1))),
                       (''type'', YStr ct),
                       (''devices'',
                         YMap [(''metadata'', YMap [(''device'', YStr meta), (''size'', YStr sm)]),
                               (''data'', YMap ds)])]) st) = Inr st'"
    by (auto elim!: exn_bind_InrE)
  from Cons.prems(2) have "\<forall>c \<in> set cs. k \<noteq> ''cvg'' @ str_int (int c + 1)"
    and "k \<noteq> ''cvg'' @ str_int (int c + 1)" by simp_all
  with Cons.IH [OF rest] show ?case by (simp add: update_conv')
qed

lemma cvg_loop_keys:
  assumes "cvg_loop md dd ct d sm sd cs st = Inr st'"
  shows "fst ` set st' = fst ` set st \<union> (\<lambda>c. ''cvg'' @ str_int (int c + 1)) ` set cs"
  using assms
proof (induction cs arbitrary: st)
  case Nil
  then show ?case by simp
next
  case (Cons c cs)
  from Cons.prems(1) obtain meta ds where
    rest: "cvg_loop md dd ct d sm sd cs
             (AList.update (''cvg'' @ str_int (int c + 1))
                (YMap [(''name'', YStr (''cvg-0'' @ str_int (int c + 1))),
                       (''type'', YStr ct),
                       (''devices'',
                         YMap [(''metadata'', YMap [(''device'', YStr meta), (''size'', YStr sm)]),
                               (''data'', YMap ds)])]) st) = Inr st'"
    by (auto elim!: exn_bind_InrE)
  from Cons.IH [OF rest] show ?case by (auto simp: dom_update)
qed

lemma cvg_loop_lookup:
  assumes "cvg_loop md dd ct d sm sd cs st = Inr st'" and "distinct cs" and "c \<in> set cs"
  shows "c < length md \<and>
         (\<exists>ds. map_of st' (''cvg'' @ str_int (int c + 1)) =
            Some (YMap [(''name'', YStr (''cvg-0'' @ str_int (int c + 1))),
                        (''type'', YStr ct),
                        (''devices'',
                          YMap [(''metadata'',
                                  YMap [(''device'', YStr (md ! c)), (''size'', YStr sm)]),
                                (''data'', YMap ds)])]))"
  using assms
proof (induction cs arbitrary: st)
  case Nil
  then show ?case by simp
next
  case (Cons c0 cs)
  from Cons.prems(1) obtain meta ds where
    meta: "py_nth md c0 = Inr meta" and
    rest: "cvg_loop md dd ct d sm sd cs
             (AList.update (''cvg'' @ str_int (int c0 + 1))
                (YMap [(''name'', YStr (''cvg-0'' @ str_int (int c0 + 1))),
                       (''type'', YStr ct),
                       (''devices'',
                         YMap [(''metadata'', YMap [(''device'', YStr meta), (''size'', YStr sm)]),
                               (''data'', YMap ds)])]) st) = Inr st'"
    by (auto elim!: exn_bind_InrE)
  show ?case
  proof (cases "c = c0")
    case True
    from meta have m: "c0 < length md" "meta = md ! c0"
      by (auto simp: py_nth_def split: if_splits)
    from Cons.prems(2) have "c0 \<notin> set cs" by simp
    then have "\<forall>c' \<in> set cs. ''cvg'' @ str_int (int c0 + 1) \<noteq> ''cvg'' @ str_int (int c' + 1)"
      using cvg_key_inj by blast
    from cvg_loop_other [OF rest this] m True show ?thesis
      by (simp add: update_conv')
  next
    case False
    with Cons.prems have "distinct cs" "c \<in> set cs" by simp_all
    from Cons.IH [OF rest this] show ?thesis .
  qed
qed

lemma partition_node_metadata:
  assumes "partition_node kw node_list st w = Done st'"
  shows "\<exists>devs. device_list_of w = Inr devs \<and>
           st_metadata_devices st' = py_slice devs 1 (cvg_count kw + 1)"
proof (cases "device_list_of w")
  case (Inl e)
  with assms show ?thesis by (simp add: partition_node_def)
next
  case (Inr devs)
  from assms show ?thesis
    unfolding partition_node_cases [OF Inr refl refl refl refl]
    using Inr by (auto split: if_splits option.splits)
qed

lemma partition_loop_last:
  assumes "partition_loop kw node_list st ws = Done st'" and "ws \<noteq> []"
  shows "\<exists>devs. device_list_of (last ws) = Inr devs \<and>
           st_metadata_devices st' = py_slice devs 1 (cvg_count kw + 1)"
  using assms
proof (induction ws arbitrary: st)
  case Nil
  then show ?case by simp
next
  case (Cons w ws)
  from Cons.prems(1) obtain st1 where
    n: "partition_node kw node_list st w = Done st1" and
    l: "partition_loop kw node_list st1 ws = Done st'"
    by (auto split: step.splits)
  show ?case
  proof (cases "ws = []")
    case True
    with l have "st' = st1" by simp
    with partition_node_metadata [OF n] True show ?thesis by simp
  next
    case False
    from Cons.IH [OF l False] False show ?thesis by simp
  qed
qed

lemma py_path_storage_nodes:
  assumes "update_nodes_sol_file conf3 ws = Inr conf4"
  shows "py_path conf4 (''solution'' # ''storage'' # ks) = py_path conf3 (''solution'' # ''storage'' # ks)"
  using assms unfolding update_nodes_sol_file_def
  by (elim exn_bind_InrE py_setitem_InrE) auto

lemma update_cvg_storage:
  assumes "update_cvg_sol_file conf md dd g ct d sn sk ss dn dk ds sm sd gs = Inr conf'"
  shows "\<exists>sto. cvg_loop md dd ct d sm sd [0 ..< nat g] [] = Inr sto \<and>
           py_path conf' [''solution'', ''storage''] = Inr (YMap sto)"
  using assms unfolding update_cvg_sol_file_def Let_def
  by (elim exn_bind_InrE py_setitem_InrE) (auto dest!: as_dict_InrE)

lemma partition_node_total:
  assumes "0 \<le> cvg_count kw"
  shows "partition_node kw node_list st w \<noteq> Diverged"
proof (cases "device_list_of w")
  case (Inl e)
  then show ?thesis by (simp add: partition_node_def)
next
  case (Inr devs)
  from assms obtain n where n: "cvg_count kw = int n" by (metis nonneg_int_cases)
  define d where "d = effective_d kw st devs"
  define f where "f = py_slice_from devs (cvg_count kw + 1)"
  define nl where "nl = int (length devs) - cvg_count kw - 1"
  from slice_loop_terminates [of n d d nl f "st_data_devices st @ [py_slice f 0 d]"]
  obtain r where "slice_loop (cvg_count kw) d d nl f (st_data_devices st @ [py_slice f 0 d]) = Some r"
    unfolding n by blast
  then show ?thesis
    unfolding partition_node_cases [OF Inr d_def [symmetric] f_def [symmetric] refl nl_def [symmetric]]
    by simp
qed

lemma partition_node_persists:
  assumes "partition_node kw node_list st w = Done st'" and "device_list_of w = Inr devs"
    and "effective_d kw st devs * cvg_count kw < int (length devs) - cvg_count kw - 1"
  shows "\<exists>new. st_data_devices st' = st_data_devices st @ new"
  using assms(1,3) unfolding partition_node_cases [OF assms(2) refl refl refl refl]
  by (auto split: if_splits option.splits dest!: slice_loop_prefix)

lemma update_sol_yaml_Done:
  assumes "update_sol_yaml cfg dec ws conf ci kw = (conf', Done disks)"
  obtains st conf2 conf3 where
    "partition_loop kw (int (length ws)) (init_state kw) ws = Done st"
    "update_cvg_sol_file conf2 (st_metadata_devices st) (st_data_devices st)
       (cvg_count kw) (cvg_type kw) (st_data_disk_per_cvg st)
       (sns_data kw) (sns_parity kw) (sns_spare kw)
       (dix_data kw) (dix_parity kw) (dix_spare kw)
       (size_metadata kw) (size_data_disk kw) (glusterfs_size kw) = Inr conf3"
    "update_nodes_sol_file conf3 ws = Inr conf'"
  using assms unfolding update_sol_yaml_def
  by (auto split: step.splits sum.splits)

lemma partition_node_replaces:
  assumes "partition_node kw node_list st w = Done st'" and "device_list_of w = Inr devs"
    and "\<not> effective_d kw st devs * cvg_count kw < int (length devs) - cvg_count kw - 1"
  shows "st_data_devices st' =
           map (\<lambda>i. py_slice (py_slice_from devs (cvg_count kw + 1)) i
                       (i + effective_d kw st devs))
             (py_range0 (int (length (py_slice_from devs (cvg_count kw + 1))))
                (effective_d kw st devs))"
  using assms(1,3) unfolding partition_node_cases [OF assms(2) refl refl refl refl]
  by (auto split: if_splits option.splits)

text \<open>
  C9, as the code has it.  When \<^verbatim>\<open>update_sol_yaml\<close> succeeds on a non-empty list of
  workers, the storage section of the manifest written holds one set of volume groups,
  \<^verbatim>\<open>cvg1\<close> to \<^verbatim>\<open>cvg<g>\<close>, not one per worker, and the metadata device of group
  \<open>c + 1\<close> is device \<open>c + 1\<close> of the last worker of the list.  In each iteration of the
  loop the metadata devices are set from the worker at hand, whatever they were.  The
  data slices found so far are kept, and the new ones added after them, only in the
  branch for \<open>d * g < n - g - 1\<close>; an iteration that succeeds in the other branch, for
  \<open>d * g = n - g - 1\<close>, replaces them by the slices of the worker at hand.
\<close>

theorem storage_section_single_assignment:
  "(update_sol_yaml cfg dec ws conf ci kw = (conf', Done disks) \<and> ws \<noteq> [] \<longrightarrow>
      (\<exists>devs sto.
         device_list_of (last ws) = Inr devs \<and>
         py_path conf' [''solution'', ''storage''] = Inr (YMap sto) \<and>
         fst ` set sto = (\<lambda>c. ''cvg'' @ str_int (int c + 1)) ` {..< nat (cvg_count kw)} \<and>
         (\<forall>c < nat (cvg_count kw).
            c + 1 < length devs \<and>
            py_path conf' [''solution'', ''storage'', ''cvg'' @ str_int (int c + 1),
                           ''devices'', ''metadata'', ''device'']
              = Inr (YStr (devs ! (c + 1))))))
   \<and> (partition_node kw node_list st w = Done st' \<longrightarrow>
      (\<exists>devs.
         device_list_of w = Inr devs \<and>
         st_metadata_devices st' = py_slice devs 1 (cvg_count kw + 1) \<and>
         (effective_d kw st devs * cvg_count kw < int (length devs) - cvg_count kw - 1 \<longrightarrow>
            (\<exists>new. st_data_devices st' = st_data_devices st @ new)) \<and>
         (\<not> effective_d kw st devs * cvg_count kw < int (length devs) - cvg_count kw - 1 \<longrightarrow>
            st_data_devices st' =
              map (\<lambda>i. py_slice (py_slice_from devs (cvg_count kw + 1)) i
                          (i + effective_d kw st devs))
                (py_range0 (int (length (py_slice_from devs (cvg_count kw + 1))))
                   (effective_d kw st devs)))))"
proof (intro conjI impI)
  assume a: "update_sol_yaml cfg dec ws conf ci kw = (conf', Done disks) \<and> ws \<noteq> []"
  then have ne: "ws \<noteq> []" by simp
  from a obtain fin conf2 conf3 where
    loop: "partition_loop kw (int (length ws)) (init_state kw) ws = Done fin" and
    cvg: "update_cvg_sol_file conf2 (st_metadata_devices fin) (st_data_devices fin)
       (cvg_count kw) (cvg_type kw) (st_data_disk_per_cvg fin)
       (sns_data kw) (sns_parity kw) (sns_spare kw)
       (dix_data kw) (dix_parity kw) (dix_spare kw)
       (size_metadata kw) (size_data_disk kw) (glusterfs_size kw) = Inr conf3" and
    nodes: "update_nodes_sol_file conf3 ws = Inr conf'"
    by (auto elim: update_sol_yaml_Done)
  from partition_loop_last [OF loop ne] obtain devs where
    devs: "device_list_of (last ws) = Inr devs" and
    md: "st_metadata_devices fin = py_slice devs 1 (cvg_count kw + 1)" by blast
  from update_cvg_storage [OF cvg] obtain sto where
    sto: "cvg_loop (st_metadata_devices fin) (st_data_devices fin) (cvg_type kw)
            (st_data_disk_per_cvg fin) (size_metadata kw) (size_data_disk kw)
            [0 ..< nat (cvg_count kw)] [] = Inr sto" and
    p3: "py_path conf3 [''solution'', ''storage''] = Inr (YMap sto)" by blast
  have p: "py_path conf' [''solution'', ''storage''] = Inr (YMap sto)"
    using py_path_storage_nodes [OF nodes, of "[]"] p3 by simp
  have keys: "fst ` set sto = (\<lambda>c. ''cvg'' @ str_int (int c + 1)) ` {..< nat (cvg_count kw)}"
    using cvg_loop_keys [OF sto] by (simp add: lessThan_atLeast0)
  have each: "c + 1 < length devs \<and>
            py_path conf' [''solution'', ''storage'', ''cvg'' @ str_int (int c + 1),
                           ''devices'', ''metadata'', ''device'']
              = Inr (YStr (devs ! (c + 1)))" if c: "c < nat (cvg_count kw)" for c
  proof -
    from c have "c \<in> set [0 ..< nat (cvg_count kw)]" by simp
    from cvg_loop_lookup [OF sto _ this] obtain ds where
      len: "c < length (st_metadata_devices fin)" and
      look: "map_of sto (''cvg'' @ str_int (int c + 1)) =
            Some (YMap [(''name'', YStr (''cvg-0'' @ str_int (int c + 1))),
                        (''type'', YStr (cvg_type kw)),
                        (''devices'',
                          YMap [(''metadata'',
                                  YMap [(''device'', YStr (st_metadata_devices fin ! c)),
                                        (''size'', YStr (size_metadata kw))]),
                                (''data'', YMap ds)])])"
      by auto
    from c have "int 1 + int (nat (cvg_count kw)) = cvg_count kw + 1" "int 1 = 1" by simp_all
    with py_slice_nat [of devs 1 "nat (cvg_count kw)"]
    have "py_slice devs 1 (cvg_count kw + 1) = take (nat (cvg_count kw)) (drop 1 devs)"
      by (simp only:)
    then have mdt: "st_metadata_devices fin = take (nat (cvg_count kw)) (drop 1 devs)"
      unfolding md .
    from len have lt: "c + 1 < length devs" unfolding mdt by auto
    from lt have "drop 1 devs ! c = devs ! (1 + c)" by (intro nth_drop) simp
    with len have nth: "st_metadata_devices fin ! c = devs ! (c + 1)"
      unfolding mdt by (simp add: add.commute)
    have "py_path (YMap sto) [''cvg'' @ str_int (int c + 1), ''devices'', ''metadata'', ''device'']
            = Inr (YStr (devs ! (c + 1)))"
      using look nth by (simp add: py_getitem_def)
    moreover have "py_path conf3 [''solution'', ''storage'', ''cvg'' @ str_int (int c + 1),
                           ''devices'', ''metadata'', ''device'']
        = py_path (YMap sto) [''cvg'' @ str_int (int c + 1), ''devices'', ''metadata'', ''device'']"
      using p3 by (auto elim!: exn_bind_InrE)
    ultimately show ?thesis
      using py_path_storage_nodes [OF nodes,
          of "[''cvg'' @ str_int (int c + 1), ''devices'', ''metadata'', ''device'']"] lt
      by simp
  qed
  from devs p keys each
  show "\<exists>devs sto.
         device_list_of (last ws) = Inr devs \<and>
         py_path conf' [''solution'', ''storage''] = Inr (YMap sto) \<and>
         fst ` set sto = (\<lambda>c. ''cvg'' @ str_int (int c + 1)) ` {..< nat (cvg_count kw)} \<and>
         (\<forall>c < nat (cvg_count kw).
            c + 1 < length devs \<and>
            py_path conf' [''solution'', ''storage'', ''cvg'' @ str_int (int c + 1),
                           ''devices'', ''metadata'', ''device'']
              = Inr (YStr (devs ! (c + 1))))"
    by blast
next
  assume n: "partition_node kw node_list st w = Done st'"
  from partition_node_metadata [OF n] obtain devs where
    d: "device_list_of w = Inr devs"
       "st_metadata_devices st' = py_slice devs 1 (cvg_count kw + 1)" by blast
  with partition_node_persists [OF n d(1)] partition_node_replaces [OF n d(1)]
  show "\<exists>devs.
         device_list_of w = Inr devs \<and>
         st_metadata_devices st' = py_slice devs 1 (cvg_count kw + 1) \<and>
         (effective_d kw st devs * cvg_count kw < int (length devs) - cvg_count kw - 1 \<longrightarrow>
            (\<exists>new. st_data_devices st' = st_data_devices st @ new)) \<and>
         (\<not> effective_d kw st devs * cvg_count kw < int (length devs) - cvg_count kw - 1 \<longrightarrow>
            st_data_devices st' =
              map (\<lambda>i. py_slice (py_slice_from devs (cvg_count kw + 1)) i
                          (i + effective_d kw st devs))
                (py_range0 (int (length (py_slice_from devs (cvg_count kw + 1))))
                   (effective_d kw st devs)))"
    by blast
qed

lemma example_second_devices:
  "device_list_of (example_node h ''p,q,r,s,t,u,v,w'') =
     Inr [''p'', ''q'', ''r'', ''s'', ''t'', ''u'', ''v'', ''w'']"
  by (simp add: device_list_of_def example_node_def Let_def)

lemma example_two_workers_data:
  "py_path (fst (update_sol_yaml example_cfg (\<lambda>s. s)
          [example_node ''w1'' ''a,b,c,d,e,f,g,h'', example_node ''w2'' ''p,q,r,s,t,u,v,w'']
          example_conf ''cortx:1'' example_kwargs))
     [''solution'', ''storage'', ''cvg1'', ''devices'', ''data'', ''d1'', ''device'']
   = Inr (YStr ''d'')"
  by code_simp

lemma example_keep_node:
  "partition_node example_kwargs 2 ((init_state example_kwargs)\<lparr>st_data_devices := [[''x'', ''y'']]\<rparr>)
     (example_node ''w1'' ''a,b,c,d,e,f,g,h'') =
   Done \<lparr>st_data_disk_per_cvg = 2,
           st_data_devices = [[''x'', ''y''], [''d'', ''e''], [''f'', ''g'']],
           st_metadata_devices = [''b'', ''c''],
           st_sys_disk_pernode = [(''w1'', ''a'')]\<rparr>"
proof -
  have eff: "effective_d example_kwargs ((init_state example_kwargs)\<lparr>st_data_devices := [[''x'', ''y'']]\<rparr>) devs = 2" for devs
    by (simp add: effective_d_def example_kwargs_def init_state_def)
  show ?thesis
    by (subst partition_node_cases [OF example_devices(3) eff refl refl refl])
      (simp add: example_kwargs_def init_state_def slice_loop.simps py_slice_def
         py_slice_from_def slice_bound_def)
qed

lemma example_two_workers_run:
  "snd (update_sol_yaml example_cfg (\<lambda>s. s)
          [example_node ''w1'' ''a,b,c,d,e,f,g,h'', example_node ''w2'' ''p,q,r,s,t,u,v,w'']
          example_conf ''cortx:1'' example_kwargs) = Done [(''w1'', ''a''), (''w2'', ''p'')]"
  by code_simp

lemma example_replace_node:
  "partition_node example_kwargs 2 ((init_state example_kwargs)\<lparr>st_data_devices := [[''x'', ''y'']]\<rparr>)
     (example_node ''w1'' ''a,b,c,d,e,f,g'') =
   Done \<lparr>st_data_disk_per_cvg = 2,
           st_data_devices = [[''d'', ''e''], [''f'', ''g'']],
           st_metadata_devices = [''b'', ''c''],
           st_sys_disk_pernode = [(''w1'', ''a'')]\<rparr>"
  by code_simp

text \<open>Two workers with eight devices each, for two groups of two data disks: the
  metadata devices written are those of the second worker, the data devices those of
  the first.  An iteration for a worker with eight devices keeps the slice it finds;
  one for a worker with seven devices drops it.\<close>

theorem storage_section_single_assignment_witness:
  "py_path (fst (update_sol_yaml example_cfg (\<lambda>s. s)
          [example_node ''w1'' ''a,b,c,d,e,f,g,h'', example_node ''w2'' ''p,q,r,s,t,u,v,w'']
          example_conf ''cortx:1'' example_kwargs))
     [''solution'', ''storage'', ''cvg1'', ''devices'', ''metadata'', ''device'']
     = Inr (YStr ''q'')
   \<and> py_path (fst (update_sol_yaml example_cfg (\<lambda>s. s)
          [example_node ''w1'' ''a,b,c,d,e,f,g,h'', example_node ''w2'' ''p,q,r,s,t,u,v,w'']
          example_conf ''cortx:1'' example_kwargs))
     [''solution'', ''storage'', ''cvg2'', ''devices'', ''metadata'', ''device'']
     = Inr (YStr ''r'')
   \<and> py_path (fst (update_sol_yaml example_cfg (\<lambda>s. s)
          [example_node ''w1'' ''a,b,c,d,e,f,g,h'', example_node ''w2'' ''p,q,r,s,t,u,v,w'']
          example_conf ''cortx:1'' example_kwargs))
     [''solution'', ''storage'', ''cvg1'', ''devices'', ''data'', ''d1'', ''device'']
     = Inr (YStr ''d'')
   \<and> (\<exists>st' new.
        partition_node example_kwargs 2
          ((init_state example_kwargs)\<lparr>st_data_devices := [[''x'', ''y'']]\<rparr>)
          (example_node ''w1'' ''a,b,c,d,e,f,g,h'') = Done st' \<and>
        st_metadata_devices st' = [''b'', ''c''] \<and>
        st_data_devices st' = [[''x'', ''y'']] @ new)
   \<and> (\<exists>st'.
        partition_node example_kwargs 2
          ((init_state example_kwargs)\<lparr>st_data_devices := [[''x'', ''y'']]\<rparr>)
          (example_node ''w1'' ''a,b,c,d,e,f,g'') = Done st' \<and>
        st_metadata_devices st' = [''b'', ''c''] \<and>
        st_data_devices st' = [[''d'', ''e''], [''f'', ''g'']])"
proof -
  define ws where
    "ws = [example_node ''w1'' ''a,b,c,d,e,f,g,h'', example_node ''w2'' ''p,q,r,s,t,u,v,w'']"
  define U where
    "U = update_sol_yaml example_cfg (\<lambda>s. s) ws example_conf ''cortx:1'' example_kwargs"
  define st where "st = (init_state example_kwargs)\<lparr>st_data_devices := [[''x'', ''y'']]\<rparr>"
  define st' where "st' = \<lparr>st_data_disk_per_cvg = 2,
           st_data_devices = [[''x'', ''y''], [''d'', ''e''], [''f'', ''g'']],
           st_metadata_devices = [''b'', ''c''],
           st_sys_disk_pernode = [(''w1'', ''a'')]\<rparr>"
  have "snd U = Done [(''w1'', ''a''), (''w2'', ''p'')]"
    unfolding U_def ws_def by (rule example_two_workers_run)
  then have run: "update_sol_yaml example_cfg (\<lambda>s. s) ws example_conf ''cortx:1'' example_kwargs
               = (fst U, Done [(''w1'', ''a''), (''w2'', ''p'')])"
    unfolding U_def by (metis prod.collapse)
  have ne: "ws \<noteq> []" by (simp add: ws_def)
  have node: "partition_node example_kwargs 2 st (example_node ''w1'' ''a,b,c,d,e,f,g,h'') = Done st'"
    unfolding st_def st'_def by (rule example_keep_node)
  note T = storage_section_single_assignment [where cfg = example_cfg and dec = "\<lambda>s. s"
      and ws = ws and conf = example_conf and ci = "''cortx:1''" and kw = example_kwargs
      and conf' = "fst U" and disks = "[(''w1'', ''a''), (''w2'', ''p'')]" and node_list = 2
      and st = st and w = "example_node ''w1'' ''a,b,c,d,e,f,g,h''" and st' = st']
  from T run ne obtain devs where
    devs: "device_list_of (last ws) = Inr devs" and
    main: "\<forall>c < nat (cvg_count example_kwargs).
            c + 1 < length devs \<and>
            py_path (fst U) [''solution'', ''storage'', ''cvg'' @ str_int (int c + 1),
                           ''devices'', ''metadata'', ''device'']
              = Inr (YStr (devs ! (c + 1)))"
    by blast
  from devs have dv: "devs = [''p'', ''q'', ''r'', ''s'', ''t'', ''u'', ''v'', ''w'']"
    by (simp add: ws_def example_second_devices)
  have g: "nat (cvg_count example_kwargs) = 2" by (simp add: example_kwargs_def)
  have k1: "''cvg'' @ str_int (int 0 + 1) = ''cvg1''" and k2: "''cvg'' @ str_int (int 1 + 1) = ''cvg2''"
    by (simp_all add: str_int_digit digit_char_def)
  from main g have "py_path (fst U) [''solution'', ''storage'', ''cvg'' @ str_int (int 0 + 1),
                           ''devices'', ''metadata'', ''device''] = Inr (YStr (devs ! (0 + 1)))"
    by (metis zero_less_numeral)
  then have c1: "py_path (fst U) [''solution'', ''storage'', ''cvg1'', ''devices'', ''metadata'', ''device'']
      = Inr (YStr ''q'')"
    unfolding k1 dv by simp
  from main g have "py_path (fst U) [''solution'', ''storage'', ''cvg'' @ str_int (int 1 + 1),
                           ''devices'', ''metadata'', ''device''] = Inr (YStr (devs ! (1 + 1)))"
    by (metis one_less_numeral_iff semiring_norm(76))
  then have c2: "py_path (fst U) [''solution'', ''storage'', ''cvg2'', ''devices'', ''metadata'', ''device'']
      = Inr (YStr ''r'')"
    unfolding k2 dv by simp
  from T node obtain devs1 where
    d1: "device_list_of (example_node ''w1'' ''a,b,c,d,e,f,g,h'') = Inr devs1" and
    m1: "st_metadata_devices st' = py_slice devs1 1 (cvg_count example_kwargs + 1)" and
    keep: "effective_d example_kwargs st devs1 * cvg_count example_kwargs
             < int (length devs1) - cvg_count example_kwargs - 1 \<longrightarrow>
           (\<exists>new. st_data_devices st' = st_data_devices st @ new)"
    by blast
  from d1 have dv1: "devs1 = [''a'', ''b'', ''c'', ''d'', ''e'', ''f'', ''g'', ''h'']"
    by (simp add: example_devices)
  have "effective_d example_kwargs st devs1 * cvg_count example_kwargs
             < int (length devs1) - cvg_count example_kwargs - 1"
    unfolding dv1 by (simp add: effective_d_def st_def init_state_def example_kwargs_def)
  with keep obtain new where "st_data_devices st' = st_data_devices st @ new" by blast
  then have k1: "st_data_devices st' = [[''x'', ''y'']] @ new"
    by (simp add: st_def init_state_def)
  from m1 have k2: "st_metadata_devices st' = [''b'', ''c'']"
    unfolding dv1 by (simp add: example_kwargs_def py_slice_def slice_bound_def)
  from node k1 k2 have keeps: "\<exists>st' new.
        partition_node example_kwargs 2 st (example_node ''w1'' ''a,b,c,d,e,f,g,h'') = Done st' \<and>
        st_metadata_devices st' = [''b'', ''c''] \<and>
        st_data_devices st' = [[''x'', ''y'']] @ new"
    by blast
  define st2 where "st2 = \<lparr>st_data_disk_per_cvg = 2,
           st_data_devices = [[''d'', ''e''], [''f'', ''g'']],
           st_metadata_devices = [''b'', ''c''],
           st_sys_disk_pernode = [(''w1'', ''a'')]\<rparr>"
  have node2: "partition_node example_kwargs 2 st (example_node ''w1'' ''a,b,c,d,e,f,g'') = Done st2"
    unfolding st_def st2_def by (rule example_replace_node)
  from storage_section_single_assignment [where kw = example_kwargs and node_list = 2
      and st = st and w = "example_node ''w1'' ''a,b,c,d,e,f,g''" and st' = st2] node2
  obtain devs2 where
    d2: "device_list_of (example_node ''w1'' ''a,b,c,d,e,f,g'') = Inr devs2" and
    m2: "st_metadata_devices st2 = py_slice devs2 1 (cvg_count example_kwargs + 1)" and
    repl: "\<not> effective_d example_kwargs st devs2 * cvg_count example_kwargs
             < int (length devs2) - cvg_count example_kwargs - 1 \<longrightarrow>
           st_data_devices st2 =
              map (\<lambda>i. py_slice (py_slice_from devs2 (cvg_count example_kwargs + 1)) i
                          (i + effective_d example_kwargs st devs2))
                (py_range0 (int (length (py_slice_from devs2 (cvg_count example_kwargs + 1))))
                   (effective_d example_kwargs st devs2))"
    by blast
  from d2 have dv2: "devs2 = [''a'', ''b'', ''c'', ''d'', ''e'', ''f'', ''g'']"
    by (simp add: example_devices)
  have e2: "effective_d example_kwargs st devs = 2" for devs
    by (simp add: effective_d_def st_def init_state_def example_kwargs_def)
  have "\<not> effective_d example_kwargs st devs2 * cvg_count example_kwargs
             < int (length devs2) - cvg_count example_kwargs - 1"
    unfolding e2 by (simp add: example_kwargs_def dv2)
  with repl have "st_data_devices st2 =
              map (\<lambda>i. py_slice (py_slice_from devs2 (cvg_count example_kwargs + 1)) i
                          (i + effective_d example_kwargs st devs2))
                (py_range0 (int (length (py_slice_from devs2 (cvg_count example_kwargs + 1))))
                   (effective_d example_kwargs st devs2))"
    by blast
  moreover have "st_data_devices st2 = [[''d'', ''e''], [''f'', ''g'']]"
    "st_metadata_devices st2 = [''b'', ''c'']"
    by (simp_all add: st2_def)
  ultimately have replaces: "\<exists>st'.
        partition_node example_kwargs 2 st (example_node ''w1'' ''a,b,c,d,e,f,g'') = Done st' \<and>
        st_metadata_devices st' = [''b'', ''c''] \<and>
        st_data_devices st' = [[''d'', ''e''], [''f'', ''g'']]"
    using node2 by blast
  have data: "py_path (fst U) [''solution'', ''storage'', ''cvg1'', ''devices'', ''data'', ''d1'', ''device'']
      = Inr (YStr ''d'')"
    unfolding U_def ws_def by (rule example_two_workers_data)
  from c1 c2 data keeps replaces show ?thesis unfolding U_def ws_def st_def by blast
qed

text \<open>The data devices do not persist through an iteration of the branch for
  \<open>d * g = n - g - 1\<close>: a worker with seven devices, for two groups of two data disks,
  drops the slice found before it; and of two such workers the manifest gets the data
  devices of the second, as it gets its metadata devices.\<close>

theorem storage_data_devices_counterexample:
  "partition_node example_kwargs 2
     ((init_state example_kwargs)\<lparr>st_data_devices := [[''x'', ''y'']]\<rparr>)
     (example_node ''w1'' ''a,b,c,d,e,f,g'') =
   Done \<lparr>st_data_disk_per_cvg = 2,
           st_data_devices = [[''d'', ''e''], [''f'', ''g'']],
           st_metadata_devices = [''b'', ''c''],
           st_sys_disk_pernode = [(''w1'', ''a'')]\<rparr>
   \<and> snd (update_sol_yaml example_cfg (\<lambda>s. s)
          [example_node ''w1'' ''a,b,c,d,e,f,g'', example_node ''w2'' ''p,q,r,s,t,u,v'']
          example_conf ''cortx:1'' example_kwargs) = Done [(''w1'', ''a''), (''w2'', ''p'')]
   \<and> py_path (fst (update_sol_yaml example_cfg (\<lambda>s. s)
          [example_node ''w1'' ''a,b,c,d,e,f,g'', example_node ''w2'' ''p,q,r,s,t,u,v'']
          example_conf ''cortx:1'' example_kwargs))
       [''solution'', ''storage'', ''cvg1'', ''devices'', ''data'', ''d1'', ''device'']
     = Inr (YStr ''s'')
   \<and> py_path (fst (update_sol_yaml example_cfg (\<lambda>s. s)
          [example_node ''w1'' ''a,b,c,d,e,f,g'', example_node ''w2'' ''p,q,r,s,t,u,v'']
          example_conf ''cortx:1'' example_kwargs))
       [''solution'', ''storage'', ''cvg2'', ''devices'', ''data'', ''d2'', ''device'']
     = Inr (YStr ''v'')"
  by code_simp

end
